theory Spec2Isabelle
  imports Complex_Main "HOL-Library.AList"
begin

section \<open>Numbers and small helpers\<close>

text \<open>
  The simulation computes with JavaScript numbers.  The development below reads them as
  real numbers (exact arithmetic): rounding, NaN and the infinities are outside the model.
  The JavaScript idiom \<open>x || 0\<close> yields \<open>0\<close> when \<open>x\<close> is falsy; the only falsy real
  number is \<open>0\<close>.
\<close>

definition js_or :: "real \<Rightarrow> real \<Rightarrow> real" where
  "js_or x d = (if x = 0 then d else x)"

section \<open>Linear algebra primitives of the estimator (kalman-filter.ts)\<close>

text \<open>
  A matrix is \<open>number[][]\<close>: a list of rows.  The routines are only ever applied to
  rectangular matrices of matching shapes (7x7, 4x7, 7x4, 4x4); entry lemmas below
  carry the shape as a hypothesis.
\<close>

type_synonym matrix = "real list list"

record Vec2 =
  v2x :: real
  v2y :: real

record Vec3 =
  v3x :: real
  v3y :: real
  v3z :: real

definition matrixMultiply :: "matrix \<Rightarrow> matrix \<Rightarrow> matrix" where
  "matrixMultiply A B =
     map (\<lambda>i. map (\<lambda>j. foldl (\<lambda>acc k. acc + A ! i ! k * B ! k ! j) 0 [0..<length (A ! 0)])
                   [0..<length (B ! 0)])
         [0..<length A]"

definition matrixAdd :: "matrix \<Rightarrow> matrix \<Rightarrow> matrix" where
  "matrixAdd A B = map (\<lambda>i. map (\<lambda>j. A ! i ! j + B ! i ! j) [0..<length (A ! i)]) [0..<length A]"

definition matrixSubtract :: "matrix \<Rightarrow> matrix \<Rightarrow> matrix" where
  "matrixSubtract A B = map (\<lambda>i. map (\<lambda>j. A ! i ! j - B ! i ! j) [0..<length (A ! i)]) [0..<length A]"

definition scalarMultiply :: "matrix \<Rightarrow> real \<Rightarrow> matrix" where
  "scalarMultiply A scalar = map (\<lambda>row. map (\<lambda>val. val * scalar) row) A"

definition transpose_m :: "matrix \<Rightarrow> matrix" where
  "transpose_m A = map (\<lambda>i. map (\<lambda>row. row ! i) A) [0..<length (A ! 0)]"

definition identity :: "nat \<Rightarrow> matrix" where
  "identity n = map (\<lambda>i. map (\<lambda>j. if i = j then 1 else 0) [0..<n]) [0..<n]"

definition matrixVectorMultiply :: "matrix \<Rightarrow> real list \<Rightarrow> real list" where
  "matrixVectorMultiply A v =
     map (\<lambda>row. foldl (\<lambda>sum i. sum + row ! i * v ! i) 0 [0..<length row]) A"

definition determinant3x3 :: "matrix \<Rightarrow> real" where
  "determinant3x3 A =
     A ! 0 ! 0 * (A ! 1 ! 1 * A ! 2 ! 2 - A ! 1 ! 2 * A ! 2 ! 1) -
     A ! 0 ! 1 * (A ! 1 ! 0 * A ! 2 ! 2 - A ! 1 ! 2 * A ! 2 ! 0) +
     A ! 0 ! 2 * (A ! 1 ! 0 * A ! 2 ! 1 - A ! 1 ! 1 * A ! 2 ! 0)"

definition getMinor :: "matrix \<Rightarrow> nat \<Rightarrow> nat \<Rightarrow> nat \<Rightarrow> matrix" where
  "getMinor A row col n =
     map (\<lambda>i. map (\<lambda>j. A ! i ! j) (filter (\<lambda>j. j \<noteq> col) [0..<n]))
         (filter (\<lambda>i. i \<noteq> row) [0..<n])"

definition determinant4x4 :: "matrix \<Rightarrow> real" where
  "determinant4x4 A =
     A ! 0 ! 0 * (A ! 1 ! 1 * A ! 2 ! 2 * A ! 3 ! 3 - A ! 1 ! 1 * A ! 2 ! 3 * A ! 3 ! 2 -
                  A ! 1 ! 2 * A ! 2 ! 1 * A ! 3 ! 3 + A ! 1 ! 2 * A ! 2 ! 3 * A ! 3 ! 1 +
                  A ! 1 ! 3 * A ! 2 ! 1 * A ! 3 ! 2 - A ! 1 ! 3 * A ! 2 ! 2 * A ! 3 ! 1) -
     A ! 0 ! 1 * (A ! 1 ! 0 * A ! 2 ! 2 * A ! 3 ! 3 - A ! 1 ! 0 * A ! 2 ! 3 * A ! 3 ! 2 -
                  A ! 1 ! 2 * A ! 2 ! 0 * A ! 3 ! 3 + A ! 1 ! 2 * A ! 2 ! 3 * A ! 3 ! 0 +
                  A ! 1 ! 3 * A ! 2 ! 0 * A ! 3 ! 2 - A ! 1 ! 3 * A ! 2 ! 2 * A ! 3 ! 0) +
     A ! 0 ! 2 * (A ! 1 ! 0 * A ! 2 ! 1 * A ! 3 ! 3 - A ! 1 ! 0 * A ! 2 ! 3 * A ! 3 ! 1 -
                  A ! 1 ! 1 * A ! 2 ! 0 * A ! 3 ! 3 + A ! 1 ! 1 * A ! 2 ! 3 * A ! 3 ! 0 +
                  A ! 1 ! 3 * A ! 2 ! 0 * A ! 3 ! 1 - A ! 1 ! 3 * A ! 2 ! 1 * A ! 3 ! 0) -
     A ! 0 ! 3 * (A ! 1 ! 0 * A ! 2 ! 1 * A ! 3 ! 2 - A ! 1 ! 0 * A ! 2 ! 2 * A ! 3 ! 1 -
                  A ! 1 ! 1 * A ! 2 ! 0 * A ! 3 ! 2 + A ! 1 ! 1 * A ! 2 ! 2 * A ! 3 ! 0 +
                  A ! 1 ! 2 * A ! 2 ! 0 * A ! 3 ! 1 - A ! 1 ! 2 * A ! 2 ! 1 * A ! 3 ! 0)"

text \<open>
  \<open>adjugate4x4\<close> fills \<open>adj[j][i] = (-1)^(i+j) * det3 (minor A i j)\<close> for all \<open>i, j < 4\<close>;
  read by rows, entry \<open>(r, c)\<close> of the result is the cofactor of \<open>(c, r)\<close>.
\<close>

definition adjugate4x4 :: "matrix \<Rightarrow> matrix" where
  "adjugate4x4 A =
     map (\<lambda>r. map (\<lambda>c. (- 1) ^ (c + r) * determinant3x3 (getMinor A c r 4)) [0..<4]) [0..<4]"

definition inverse_m :: "matrix \<Rightarrow> matrix" where
  "inverse_m A =
     (let n = length A in
      if n = 4 then
        (let det = determinant4x4 A in
         if \<bar>det\<bar> < 1 / 10 ^ 10 then identity n
         else map (\<lambda>row. map (\<lambda>val. val / det) row) (adjugate4x4 A))
      else identity n)"

section \<open>The extended Kalman filter (kalman-filter.ts)\<close>

record StateVector =
  sv_px :: real
  sv_py :: real
  sv_vx :: real
  sv_vy :: real
  sv_g :: real
  sv_m :: real
  sv_mu :: real

record ExtendedKalmanFilter =
  ekf_state :: StateVector
  ekf_P :: matrix
  ekf_Q :: matrix
  ekf_R :: real
  ekf_dt :: real

definition initial_P :: "real \<Rightarrow> matrix" where
  "initial_P c =
     [[c, 0, 0, 0, 0, 0, 0],
      [0, c, 0, 0, 0, 0, 0],
      [0, 0, c, 0, 0, 0, 0],
      [0, 0, 0, c, 0, 0, 0],
      [0, 0, 0, 0, 5, 0, 0],
      [0, 0, 0, 0, 0, 2, 0],
      [0, 0, 0, 0, 0, 0, 1]]"

definition initial_Q :: matrix where
  "initial_Q =
     [[1/100, 0, 0, 0, 0, 0, 0],
      [0, 1/100, 0, 0, 0, 0, 0],
      [0, 0, 1/100, 0, 0, 0, 0],
      [0, 0, 0, 1/100, 0, 0, 0],
      [0, 0, 0, 0, 1/10000, 0, 0],
      [0, 0, 0, 0, 0, 1/10000, 0],
      [0, 0, 0, 0, 0, 0, 1/10000]]"

text \<open>The constructor; its defaults are \<open>initialCovariance = 10.0\<close> and \<open>dt = 0.016\<close>.\<close>

definition new_ekf :: "StateVector \<Rightarrow> real \<Rightarrow> real \<Rightarrow> ExtendedKalmanFilter" where
  "new_ekf initialState initialCovariance dt =
     \<lparr> ekf_state = initialState, ekf_P = initial_P initialCovariance,
       ekf_Q = initial_Q, ekf_R = 1/10, ekf_dt = dt \<rparr>"

definition computeJacobian :: "ExtendedKalmanFilter \<Rightarrow> matrix" where
  "computeJacobian f =
     (let vx = sv_vx (ekf_state f); vy = sv_vy (ekf_state f); \<mu> = sv_mu (ekf_state f);
          dt = ekf_dt f in
      [[1, 0, dt, 0, 0, 0, 0],
       [0, 1, 0, dt, - (1/2) * dt * dt, 0, 0],
       [0, 0, 1 - \<mu> * dt, 0, 0, 0, - vx * dt],
       [0, 0, 0, 1 - \<mu> * dt, - dt, 0, - vy * dt],
       [0, 0, 0, 0, 1, 0, 0],
       [0, 0, 0, 0, 0, 1, 0],
       [0, 0, 0, 0, 0, 0, 1]])"

definition computeObservationMatrix :: matrix where
  "computeObservationMatrix =
     [[1, 0, 0, 0, 0, 0, 0],
      [0, 1, 0, 0, 0, 0, 0],
      [0, 0, 1, 0, 0, 0, 0],
      [0, 0, 0, 1, 0, 0, 0]]"

text \<open>\<open>predict\<close> mutates the filter and returns a copy of the new state vector.\<close>

definition predict :: "ExtendedKalmanFilter \<Rightarrow> ExtendedKalmanFilter" where
  "predict f =
     (let s = ekf_state f; dt = ekf_dt f;
          predictedState = \<lparr> sv_px = sv_px s + sv_vx s * dt + (1/2) * 0 * dt * dt,
                             sv_py = sv_py s + sv_vy s * dt - (1/2) * sv_g s * dt * dt,
                             sv_vx = sv_vx s - sv_mu s * sv_vx s * dt,
                             sv_vy = sv_vy s - sv_g s * dt - sv_mu s * sv_vy s * dt,
                             sv_g = sv_g s, sv_m = sv_m s, sv_mu = sv_mu s \<rparr>;
          F = computeJacobian f;
          P1 = matrixMultiply (matrixMultiply F (ekf_P f)) (transpose_m F);
          P2 = matrixAdd P1 (ekf_Q f)
      in f \<lparr> ekf_P := P2, ekf_state := predictedState \<rparr>)"

text \<open>
  The first half of \<open>update\<close>: the innovation covariance \<open>S = H P H\<^sup>T + R I\<close> and
  the gain \<open>K = P H\<^sup>T S\<^sup>-\<^sup>1\<close>.
\<close>

definition innovation_cov :: "ExtendedKalmanFilter \<Rightarrow> matrix" where
  "innovation_cov f =
     (let H = computeObservationMatrix;
          HP = matrixMultiply H (ekf_P f)
      in matrixAdd (matrixMultiply HP (transpose_m H)) (scalarMultiply (identity 4) (ekf_R f)))"

definition kalman_gain :: "ExtendedKalmanFilter \<Rightarrow> matrix" where
  "kalman_gain f =
     (let H = computeObservationMatrix;
          S = innovation_cov f
      in matrixMultiply (matrixMultiply (ekf_P f) (transpose_m H)) (inverse_m S))"

definition update :: "ExtendedKalmanFilter \<Rightarrow> Vec2 \<Rightarrow> Vec2 \<Rightarrow> ExtendedKalmanFilter" where
  "update f observedPosition observedVelocity =
     (let s = ekf_state f;
          z = [v2x observedPosition, v2y observedPosition, v2x observedVelocity, v2y observedVelocity];
          h = [sv_px s, sv_py s, sv_vx s, sv_vy s];
          y = map (\<lambda>i. z ! i - h ! i) [0..<length z];
          H = computeObservationMatrix;
          K = kalman_gain f;
          Ky = matrixVectorMultiply K y;
          paramLearningRate = 1/10;
          gUpdate = js_or (Ky ! 4) 0 * paramLearningRate;
          mUpdate = js_or (Ky ! 5) 0 * paramLearningRate;
          \<mu>Update = js_or (Ky ! 6) 0 * paramLearningRate;
          s' = \<lparr> sv_px = sv_px s + Ky ! 0,
                 sv_py = sv_py s + Ky ! 1,
                 sv_vx = sv_vx s + Ky ! 2,
                 sv_vy = sv_vy s + Ky ! 3,
                 sv_g = max 0 (min 20 (sv_g s + gUpdate)),
                 sv_m = max (1/10) (min 10 (sv_m s + mUpdate)),
                 sv_mu = max 0 (min 2 (sv_mu s + \<mu>Update)) \<rparr>;
          I = identity 7;
          KH = matrixMultiply K H;
          I_KH = matrixSubtract I KH
      in f \<lparr> ekf_state := s', ekf_P := matrixMultiply I_KH (ekf_P f) \<rparr>)"


definition trace7 :: "matrix \<Rightarrow> real" where
  "trace7 A = foldl (\<lambda>trace i. trace + A ! i ! i) 0 [0..<7]"


section \<open>Equation discovery (equation-discovery.ts)\<close>

record Observation =
  obs_position :: Vec2
  obs_velocity :: Vec2
  obs_acceleration :: Vec2
  obs_time :: real

record Parameter =
  par_name :: string
  par_value :: real
  par_confidence :: real

record DiscoveredEquation =
  eq_form :: string
  eq_parameters :: "Parameter list"
  eq_rSquared :: real
  eq_complexity :: nat

text \<open>
  The object's state is its observation buffer (\<open>maxObservations = 500\<close>);
  \<open>addObservation\<close> appends and evicts the oldest sample when the buffer overflows.
\<close>

definition addObservation ::
  "Observation list \<Rightarrow> Vec2 \<Rightarrow> Vec2 \<Rightarrow> Vec2 \<Rightarrow> real \<Rightarrow> Observation list" where
  "addObservation observations position velocity acceleration time =
     (let obs' = observations @ [\<lparr> obs_position = position, obs_velocity = velocity,
                                   obs_acceleration = acceleration, obs_time = time \<rparr>]
      in if length obs' > 500 then tl obs' else obs')"

text \<open>
  \<open>null\<close> is \<open>None\<close>.  Form strings are kept as their UTF-8 bytes
  (subscript zero is E2 82 80, one half is C2 BD).
\<close>

definition sub0 :: string where
  "sub0 = [CHR 0xE2, CHR 0x82, CHR 0x80]"

definition discoverGravityEquation :: "Observation list \<Rightarrow> DiscoveredEquation option" where
  "discoverGravityEquation observations =
     (if length observations < 10 then None
      else
        let yAccelerations = map (\<lambda>ob. v2y (obs_acceleration ob)) observations;
            meanAccel = foldl (\<lambda>a b. a + b) 0 yAccelerations / real (length yAccelerations);
            discoveredG = - meanAccel;
            ssRes = foldl (\<lambda>sum a. let predicted = - discoveredG in sum + (a - predicted) ^ 2)
                          0 yAccelerations;
            ssTot = foldl (\<lambda>sum a. let mean = meanAccel in sum + (a - mean) ^ 2)
                          0 yAccelerations;
            rSquared = (if ssTot > 0 then 1 - ssRes / ssTot else 0);
            confidence = min 1 (rSquared * (real (length observations) / 100))
        in Some \<lparr> eq_form = ''y'' @ [CHR 0x27, CHR 0x27] @ '' = -g'',
                   eq_parameters = [\<lparr> par_name = ''g'', par_value = discoveredG,
                                       par_confidence = confidence \<rparr>],
                   eq_rSquared = rSquared,
                   eq_complexity = 1 \<rparr>)"

definition discoverVelocityEquation :: "Observation list \<Rightarrow> DiscoveredEquation option" where
  "discoverVelocityEquation observations =
     (if length observations < 10 then None
      else
        let velocities = map (\<lambda>ob. v2y (obs_velocity ob)) observations;
            times = map (\<lambda>i. real i * (16/1000)) [0..<length observations];
            idx = [0..<length velocities];
            sumT = foldl (\<lambda>s i. s + times ! i) 0 idx;
            sumV = foldl (\<lambda>s i. s + velocities ! i) 0 idx;
            sumTV = foldl (\<lambda>s i. s + times ! i * velocities ! i) 0 idx;
            sumT2 = foldl (\<lambda>s i. s + times ! i * times ! i) 0 idx;
            n = real (length velocities);
            slope = (n * sumTV - sumT * sumV) / (n * sumT2 - sumT * sumT);
            intercept = (sumV - slope * sumT) / n;
            predicted = map (\<lambda>i. intercept + slope * times ! i) idx;
            ssRes = foldl (\<lambda>sum i. sum + (velocities ! i - predicted ! i) ^ 2) 0 idx;
            ssTot = foldl (\<lambda>sum v. let mean = sumV / n in sum + (v - mean) ^ 2) 0 velocities;
            rSquared = (if ssTot > 0 then 1 - ssRes / ssTot else 0)
        in Some \<lparr> eq_form = ''v = v'' @ sub0 @ '' + at'',
                   eq_parameters = [\<lparr> par_name = ''v'' @ sub0, par_value = intercept,
                                       par_confidence = rSquared \<rparr>,
                                    \<lparr> par_name = ''a'', par_value = slope,
                                       par_confidence = rSquared \<rparr>],
                   eq_rSquared = rSquared,
                   eq_complexity = 2 \<rparr>)"

text \<open>
  In \<open>discoverPositionEquation\<close> the sums \<open>sumT, sumT2, sumT3, sumT4, sumTY, sumT2Y\<close> are
  accumulated but never read; only \<open>sumY\<close> reaches the result.
\<close>

definition discoverPositionEquation :: "Observation list \<Rightarrow> DiscoveredEquation option" where
  "discoverPositionEquation observations =
     (if length observations < 20 then None
      else
        let positions = map (\<lambda>ob. v2y (obs_position ob)) observations;
            velocities = map (\<lambda>ob. v2y (obs_velocity ob)) observations;
            times = map (\<lambda>i. real i * (16/1000)) [0..<length observations];
            n = length positions;
            sumY = foldl (\<lambda>s i. s + positions ! i) 0 [0..<n];
            v0 = js_or (velocities ! 0) 0;
            y0 = js_or (positions ! 0) 0;
            velocityChange = (if length velocities > 1
                              then velocities ! (length velocities - 1) - velocities ! 0 else 0);
            totalTime = times ! (length times - 1) - times ! 0;
            a = (if totalTime > 0 then velocityChange / totalTime else 0);
            predicted = map (\<lambda>i. let t = times ! i in y0 + v0 * t + (1/2) * a * t * t) [0..<n];
            ssRes = foldl (\<lambda>sum i. sum + (positions ! i - predicted ! i) ^ 2) 0 [0..<n];
            ssTot = foldl (\<lambda>sum y. let mean = sumY / real n in sum + (y - mean) ^ 2) 0 positions;
            rSquared = (if ssTot > 0 then 1 - ssRes / ssTot else 0)
        in Some \<lparr> eq_form = ''y = y'' @ sub0 @ '' + v'' @ sub0 @ ''t + ''
                             @ [CHR 0xC2, CHR 0xBD] @ ''at'' @ [CHR 0xC2, CHR 0xB2],
                   eq_parameters = [\<lparr> par_name = ''y'' @ sub0, par_value = y0,
                                       par_confidence = rSquared \<rparr>,
                                    \<lparr> par_name = ''v'' @ sub0, par_value = v0,
                                       par_confidence = rSquared \<rparr>,
                                    \<lparr> par_name = ''a'', par_value = a,
                                       par_confidence = rSquared \<rparr>],
                   eq_rSquared = rSquared,
                   eq_complexity = 3 \<rparr>)"



section \<open>Particles and collisions (particle and collision modules)\<close>

record TrailPoint =
  tp_x :: real
  tp_y :: real
  tp_z :: real
  tp_variance :: real

record Particle =
  p_id :: string
  p_position :: Vec3
  p_velocity :: Vec3
  p_filter :: ExtendedKalmanFilter
  p_variance :: real
  p_trail :: "TrailPoint list"
  p_age :: real

text \<open>\<open>particle2\<close> is a particle id or the sentinel string \<open>boundary\<close>.\<close>

record CollisionEvent =
  ce_particle1 :: string
  ce_particle2 :: string
  ce_position :: Vec3
  ce_velocity :: Vec3
  ce_impact :: real








section \<open>The particle system (particle module)\<close>

text \<open>
  The system keeps its particles in a \<open>Map\<close> from id to particle; iteration follows
  insertion order and \<open>set\<close> on a present key keeps the key's place, which is what
  \<open>AList.update\<close> does on an association list.
\<close>

record ParticleSystem =
  ps_particles :: "(string \<times> Particle) list"
  ps_collisionEvents :: "CollisionEvent list"














definition getParticle :: "ParticleSystem \<Rightarrow> string \<Rightarrow> Particle option" where
  "getParticle ps ident = map_of (ps_particles ps) ident"

definition removeParticle :: "ParticleSystem \<Rightarrow> string \<Rightarrow> ParticleSystem" where
  "removeParticle ps ident = ps \<lparr> ps_particles := AList.delete ident (ps_particles ps) \<rparr>"

definition clear :: "ParticleSystem \<Rightarrow> ParticleSystem" where
  "clear ps = ps \<lparr> ps_particles := [] \<rparr>"

section \<open>The hierarchical aggregator\<close>

record Posterior =
  po_mean :: real
  po_variance :: real
  po_samples :: "real list"
  po_entropy :: real

record GlobalPosterior =
  gp_gravity :: Posterior
  gp_mass :: Posterior
  gp_friction :: Posterior
  gp_consensusStrength :: real
  gp_informationGain :: real

record Belief =
  bl_g :: real
  bl_m :: real
  bl_mu :: real
  bl_variance :: real

record HierarchicalBayesianUniverse =
  hb_globalPosterior :: GlobalPosterior
  hb_particleBeliefs :: "(string \<times> Belief) list"
  hb_history :: "GlobalPosterior list"







definition getGlobalPosterior :: "HierarchicalBayesianUniverse \<Rightarrow> GlobalPosterior" where
  "getGlobalPosterior u = hb_globalPosterior u"

definition hb_removeParticle :: "HierarchicalBayesianUniverse \<Rightarrow> string \<Rightarrow> HierarchicalBayesianUniverse" where
  "hb_removeParticle u particleId =
     u \<lparr> hb_particleBeliefs := AList.delete particleId (hb_particleBeliefs u) \<rparr>"

section \<open>Objects and references: what the getters hand out\<close>

text \<open>
  Whether a caller can reach the core's storage through a returned value depends on
  object identity, which the value-level definitions above do not show.  Here objects
  live in a store: an address is an index into the list of allocated objects, a value
  is a number, a string or a reference, and an object is a record of named fields or
  an array.  A \<open>Map\<close> is an object whose fields are its entries in insertion order.
  Allocation appends to the store.
\<close>

datatype jsval = Num real | Str string | Ref nat

datatype jsobj = Obj "(string \<times> jsval) list" | Arr "jsval list"

type_synonym heap = "jsobj list"

fun members :: "jsobj \<Rightarrow> jsval list" where
  "members (Obj fs) = map snd fs"
| "members (Arr vs) = vs"

definition alloc :: "heap \<Rightarrow> jsobj \<Rightarrow> heap \<times> jsval" where
  "alloc h ob = (h @ [ob], Ref (length h))"

definition get_field :: "heap \<Rightarrow> jsval \<Rightarrow> string \<Rightarrow> jsval option" where
  "get_field h v name =
     (case v of
        Ref a \<Rightarrow> (if a < length h then (case h ! a of Obj fs \<Rightarrow> map_of fs name | Arr vs \<Rightarrow> None)
                   else None)
      | Num x \<Rightarrow> None
      | Str s \<Rightarrow> None)"

text \<open>
  Reading typed data out of the store, as \<open>JSON.stringify\<close> does on values of the
  declared types \<open>number[]\<close>, \<open>number[][]\<close> and \<open>GlobalPosterior\<close>; \<open>None\<close> when the store
  does not hold that shape.
\<close>

fun read_num :: "jsval \<Rightarrow> real option" where
  "read_num (Num x) = Some x"
| "read_num (Str s) = None"
| "read_num (Ref a) = None"

fun read_all :: "('a \<Rightarrow> 'b option) \<Rightarrow> 'a list \<Rightarrow> 'b list option" where
  "read_all rd [] = Some []"
| "read_all rd (v # vs) =
     (case rd v of
        None \<Rightarrow> None
      | Some x \<Rightarrow> (case read_all rd vs of None \<Rightarrow> None | Some xs \<Rightarrow> Some (x # xs)))"

definition read_nums :: "heap \<Rightarrow> jsval \<Rightarrow> real list option" where
  "read_nums h v =
     (case v of
        Ref a \<Rightarrow> (if a < length h then (case h ! a of Arr vs \<Rightarrow> read_all read_num vs | Obj fs \<Rightarrow> None)
                   else None)
      | Num x \<Rightarrow> None
      | Str s \<Rightarrow> None)"

definition read_matrix :: "heap \<Rightarrow> jsval \<Rightarrow> matrix option" where
  "read_matrix h v =
     (case v of
        Ref a \<Rightarrow> (if a < length h then (case h ! a of Arr vs \<Rightarrow> read_all (read_nums h) vs | Obj fs \<Rightarrow> None)
                   else None)
      | Num x \<Rightarrow> None
      | Str s \<Rightarrow> None)"

definition read_posterior :: "heap \<Rightarrow> jsval \<Rightarrow> Posterior option" where
  "read_posterior h v =
     (case (get_field h v ''mean'', get_field h v ''variance'', get_field h v ''samples'',
            get_field h v ''entropy'') of
        (Some (Num mean), Some (Num variance), Some samples, Some (Num entropy)) \<Rightarrow>
          (case read_nums h samples of
             None \<Rightarrow> None
           | Some xs \<Rightarrow> Some \<lparr> po_mean = mean, po_variance = variance, po_samples = xs,
                               po_entropy = entropy \<rparr>)
      | _ \<Rightarrow> None)"

definition read_global :: "heap \<Rightarrow> jsval \<Rightarrow> GlobalPosterior option" where
  "read_global h v =
     (case (get_field h v ''gravity'', get_field h v ''mass'', get_field h v ''friction'',
            get_field h v ''consensusStrength'', get_field h v ''informationGain'') of
        (Some g, Some m, Some fr, Some (Num cs), Some (Num ig)) \<Rightarrow>
          (case (read_posterior h g, read_posterior h m, read_posterior h fr) of
             (Some pg, Some pm, Some pf) \<Rightarrow>
               Some \<lparr> gp_gravity = pg, gp_mass = pm, gp_friction = pf,
                      gp_consensusStrength = cs, gp_informationGain = ig \<rparr>
           | _ \<Rightarrow> None)
      | _ \<Rightarrow> None)"

text \<open>
  Building fresh objects from typed data, as \<open>JSON.parse\<close> does: every array and
  object of the result is newly allocated.
\<close>

definition write_nums :: "heap \<Rightarrow> real list \<Rightarrow> heap \<times> jsval" where
  "write_nums h xs = alloc h (Arr (map Num xs))"

definition write_matrix :: "heap \<Rightarrow> matrix \<Rightarrow> heap \<times> jsval" where
  "write_matrix h m =
     (let rows = map (\<lambda>r. Arr (map Num r)) m;
          refs = map Ref [length h..<length h + length m]
      in alloc (h @ rows) (Arr refs))"

definition write_posterior :: "heap \<Rightarrow> Posterior \<Rightarrow> heap \<times> jsval" where
  "write_posterior h p =
     (let s = write_nums h (po_samples p)
      in alloc (fst s)
           (Obj [(''mean'', Num (po_mean p)), (''variance'', Num (po_variance p)),
                 (''samples'', snd s), (''entropy'', Num (po_entropy p))]))"

definition write_global :: "heap \<Rightarrow> GlobalPosterior \<Rightarrow> heap \<times> jsval" where
  "write_global h g =
     (let a = write_posterior h (gp_gravity g);
          b = write_posterior (fst a) (gp_mass g);
          c = write_posterior (fst b) (gp_friction g)
      in alloc (fst c)
           (Obj [(''gravity'', snd a), (''mass'', snd b), (''friction'', snd c),
                 (''consensusStrength'', Num (gp_consensusStrength g)),
                 (''informationGain'', Num (gp_informationGain g))]))"

text \<open>
  The getters on the store.  \<open>this\<close> is the reference to the receiving object; the
  result is the store after the call and the returned value.
  \<^item> \<open>getState\<close> is \<open>{ ...this.state }\<close>: a new object with the fields of the state object.
  \<^item> \<open>getCovariance\<close> is \<open>{ data: JSON.parse(JSON.stringify(this.P)) }\<close>.
  \<^item> \<open>getGlobalPosterior\<close> is \<open>JSON.parse(JSON.stringify(this.globalPosterior))\<close>.
  \<^item> \<open>getParticles\<close> is \<open>Array.from(this.particles.values())\<close>: a new array holding the
    references stored in the map.
\<close>

definition getState_h :: "heap \<Rightarrow> jsval \<Rightarrow> (heap \<times> jsval) option" where
  "getState_h h this =
     (case get_field h this ''state'' of
        Some (Ref s) \<Rightarrow>
          (if s < length h then (case h ! s of Obj fs \<Rightarrow> Some (alloc h (Obj fs)) | Arr vs \<Rightarrow> None)
           else None)
      | _ \<Rightarrow> None)"

definition getCovariance_h :: "heap \<Rightarrow> jsval \<Rightarrow> (heap \<times> jsval) option" where
  "getCovariance_h h this =
     (case get_field h this ''P'' of
        Some p \<Rightarrow>
          (case read_matrix h p of
             Some m \<Rightarrow> (let w = write_matrix h m in Some (alloc (fst w) (Obj [(''data'', snd w)])))
           | None \<Rightarrow> None)
      | None \<Rightarrow> None)"

definition getGlobalPosterior_h :: "heap \<Rightarrow> jsval \<Rightarrow> (heap \<times> jsval) option" where
  "getGlobalPosterior_h h this =
     (case get_field h this ''globalPosterior'' of
        Some g \<Rightarrow> (case read_global h g of Some gp \<Rightarrow> Some (write_global h gp) | None \<Rightarrow> None)
      | None \<Rightarrow> None)"

definition getParticles_h :: "heap \<Rightarrow> jsval \<Rightarrow> (heap \<times> jsval) option" where
  "getParticles_h h this =
     (case get_field h this ''particles'' of
        Some (Ref m) \<Rightarrow>
          (if m < length h then
             (case h ! m of Obj entries \<Rightarrow> Some (alloc h (Arr (map snd entries))) | Arr vs \<Rightarrow> None)
           else None)
      | _ \<Rightarrow> None)"

text \<open>
  The objects a caller can get at from a value: the object it refers to, and every
  object referred to from one of those.
\<close>

inductive reach :: "heap \<Rightarrow> jsval \<Rightarrow> nat \<Rightarrow> bool" for h :: heap and v :: jsval where
  reach_root: "v = Ref a \<Longrightarrow> a < length h \<Longrightarrow> reach h v a"
| reach_step: "reach h v a \<Longrightarrow> Ref b \<in> set (members (h ! a)) \<Longrightarrow> b < length h \<Longrightarrow> reach h v b"

text \<open>
  A returned value \<open>v\<close> in store \<open>h'\<close> is detached from the store \<open>h\<close> before the call
  when the call left every old object as it was, and overwriting any object reachable
  from \<open>v\<close> still leaves every old object as it was.
\<close>

definition detached :: "heap \<Rightarrow> heap \<Rightarrow> jsval \<Rightarrow> bool" where
  "detached h h' v =
     (take (length h) h' = h \<and>
      (\<forall>a ob. reach h' v a \<longrightarrow> take (length h) (h'[a := ob]) = h))"

text \<open>An object with no reference among its members, such as a \<open>StateVector\<close>.\<close>

definition flat :: "jsobj \<Rightarrow> bool" where
  "flat ob = list_all (\<lambda>v. case v of Ref a \<Rightarrow> False | Num x \<Rightarrow> True | Str s \<Rightarrow> True) (members ob)"

text \<open>
  A part of the store is closed from address \<open>n\<close> on when no object at or above \<open>n\<close>
  refers below \<open>n\<close>.
\<close>

definition closed_from :: "nat \<Rightarrow> heap \<Rightarrow> bool" where
  "closed_from n h =
     (\<forall>a b. n \<le> a \<and> a < length h \<and> Ref b \<in> set (members (h ! a)) \<longrightarrow> n \<le> b)"

text \<open>
  A store with one estimator (object 0, its state vector at 1, a 2x2 stand-in for \<open>P\<close>
  at 2 with rows at 3 and 4), one aggregator (object 5, its posterior at 6, the three
  constants at 7, 9, 11 and their sample arrays at 8, 10, 12) and one particle system
  (object 13, its map \<open>particles\<close> at 14 with the single entry \<open>p1\<close>, that particle at
  15, its position and velocity at 16 and 17).
\<close>

definition example_core :: heap where
  "example_core =
     [Obj [(''state'', Ref 1), (''P'', Ref 2)],
      Obj [(''px'', Num 0), (''py'', Num 0), (''vx'', Num 1), (''vy'', Num 0),
           (''g'', Num 10), (''m'', Num 1), (''mu'', Num 0)],
      Arr [Ref 3, Ref 4],
      Arr [Num 10, Num 0],
      Arr [Num 0, Num 5],
      Obj [(''globalPosterior'', Ref 6)],
      Obj [(''gravity'', Ref 7), (''mass'', Ref 9), (''friction'', Ref 11),
           (''consensusStrength'', Num 0), (''informationGain'', Num 0)],
      Obj [(''mean'', Num 10), (''variance'', Num 25), (''samples'', Ref 8), (''entropy'', Num 3)],
      Arr [Num 9, Num 11],
      Obj [(''mean'', Num 1), (''variance'', Num 4), (''samples'', Ref 10), (''entropy'', Num 2)],
      Arr [],
      Obj [(''mean'', Num 0), (''variance'', Num 1), (''samples'', Ref 12), (''entropy'', Num 1)],
      Arr [],
      Obj [(''particles'', Ref 14)],
      Obj [(''p1'', Ref 15)],
      Obj [(''id'', Str ''p1''), (''position'', Ref 16), (''velocity'', Ref 17),
           (''variance'', Num 4), (''age'', Num 0)],
      Obj [(''x'', Num 0), (''y'', Num 0), (''z'', Num 0)],
      Obj [(''x'', Num 1), (''y'', Num 0), (''z'', Num 0)]]"

section \<open>IEEE 754 binary64 arithmetic\<close>

text \<open>
  JavaScript numbers are IEEE 754 binary64 values, and every arithmetic operation rounds
  its exact result to the nearest representable value, ties to even.  The sections above
  compute in exact arithmetic; this section gives the rounding, the infinities and NaN,
  and the following ones embed the numerically sensitive routines a second time over
  these values, operation by operation in the order in which the source evaluates them.
  The sign of zero is not modelled: the routines embedded here never divide by a value
  that can be zero (every divisor has passed a comparison with a positive threshold) and
  never inspect the sign of a zero.
\<close>

datatype f64 = Fin real | PInf | NInf | NaN

text \<open>The number of binary digits of a natural number.\<close>

fun blen :: "nat \<Rightarrow> nat" where
  "blen n = (if n = 0 then 0 else Suc (blen (n div 2)))"

declare blen.simps [simp del]

definition pow2 :: "int \<Rightarrow> real" where
  "pow2 e = (if 0 \<le> e then 2 ^ nat e else 1 / 2 ^ nat (- e))"

text \<open>
  The binary exponent of a non-zero real: \<open>pow2 (expo x) \<le> \<bar>x\<bar> < pow2 (expo x + 1)\<close>.
\<close>

definition expo :: "real \<Rightarrow> int" where
  "expo x = (if 1 \<le> \<bar>x\<bar> then int (blen (nat \<lfloor>\<bar>x\<bar>\<rfloor>)) - 1
             else - int (blen (nat (\<lceil>1 / \<bar>x\<bar>\<rceil> - 1))))"

text \<open>
  Rounding to the nearest integer, ties to the even one: \<open>f\<close> is the floor and \<open>d\<close> the
  distance from it.
\<close>

definition tie_even :: "int \<Rightarrow> real \<Rightarrow> int" where
  "tie_even f d = (if d < 1/2 then f else if 1/2 < d then f + 1 else if even f then f else f + 1)"

definition rne :: "real \<Rightarrow> int" where
  "rne x = tie_even \<lfloor>x\<rfloor> (x - of_int \<lfloor>x\<rfloor>)"

text \<open>
  Rounding a real to binary64.  The spacing of the representable numbers around \<open>x\<close> is
  \<open>ulp x\<close>: 53 significant bits, and below the exponent -1022 the spacing stays that of
  the subnormal numbers, \<open>2 ^ -1074\<close>.  \<open>x\<close> is rounded to the nearest multiple of the
  spacing; a result of magnitude \<open>2 ^ 1024\<close> or more is an infinity.
\<close>

definition ulp :: "real \<Rightarrow> real" where
  "ulp x = pow2 (max (expo x) (- 1022) - 52)"

definition round_to :: "real \<Rightarrow> real \<Rightarrow> real" where
  "round_to q x = of_int (rne (x / q)) * q"

definition huge :: real where
  "huge = 2 ^ 1024"

definition overflow :: "real \<Rightarrow> f64" where
  "overflow y = (if huge \<le> y then PInf else if y \<le> - huge then NInf else Fin y)"

definition fl :: "real \<Rightarrow> f64" where
  "fl x = (if x = 0 then Fin 0 else overflow (round_to (ulp x) x))"

fun fneg :: "f64 \<Rightarrow> f64" where
  "fneg (Fin a) = Fin (- a)"
| "fneg PInf = NInf"
| "fneg NInf = PInf"
| "fneg NaN = NaN"

fun fadd :: "f64 \<Rightarrow> f64 \<Rightarrow> f64" where
  "fadd (Fin a) (Fin b) = fl (a + b)"
| "fadd NaN y = NaN"
| "fadd x NaN = NaN"
| "fadd PInf NInf = NaN"
| "fadd NInf PInf = NaN"
| "fadd PInf y = PInf"
| "fadd NInf y = NInf"
| "fadd x PInf = PInf"
| "fadd x NInf = NInf"

definition fsub :: "f64 \<Rightarrow> f64 \<Rightarrow> f64" where
  "fsub x y = fadd x (fneg y)"

fun fmul :: "f64 \<Rightarrow> f64 \<Rightarrow> f64" where
  "fmul (Fin a) (Fin b) = fl (a * b)"
| "fmul NaN y = NaN"
| "fmul x NaN = NaN"
| "fmul PInf (Fin b) = (if b = 0 then NaN else if 0 < b then PInf else NInf)"
| "fmul NInf (Fin b) = (if b = 0 then NaN else if 0 < b then NInf else PInf)"
| "fmul (Fin a) PInf = (if a = 0 then NaN else if 0 < a then PInf else NInf)"
| "fmul (Fin a) NInf = (if a = 0 then NaN else if 0 < a then NInf else PInf)"
| "fmul PInf PInf = PInf"
| "fmul PInf NInf = NInf"
| "fmul NInf PInf = NInf"
| "fmul NInf NInf = PInf"

fun fdiv :: "f64 \<Rightarrow> f64 \<Rightarrow> f64" where
  "fdiv (Fin a) (Fin b) =
     (if b = 0 then (if a = 0 then NaN else if 0 < a then PInf else NInf) else fl (a / b))"
| "fdiv NaN y = NaN"
| "fdiv x NaN = NaN"
| "fdiv (Fin a) y = Fin 0"
| "fdiv PInf (Fin b) = (if 0 \<le> b then PInf else NInf)"
| "fdiv NInf (Fin b) = (if 0 \<le> b then NInf else PInf)"
| "fdiv x y = NaN"

fun fsqrt :: "f64 \<Rightarrow> f64" where
  "fsqrt (Fin a) = (if a < 0 then NaN else fl (sqrt a))"
| "fsqrt PInf = PInf"
| "fsqrt x = NaN"

fun fabs :: "f64 \<Rightarrow> f64" where
  "fabs (Fin a) = Fin \<bar>a\<bar>"
| "fabs NaN = NaN"
| "fabs x = PInf"

text \<open>The comparison \<open>x < y\<close>; every comparison with NaN is false.\<close>

fun flt :: "f64 \<Rightarrow> f64 \<Rightarrow> bool" where
  "flt (Fin a) (Fin b) = (a < b)"
| "flt NaN y = False"
| "flt x NaN = False"
| "flt x NInf = False"
| "flt PInf y = False"
| "flt x y = True"

text \<open>\<open>Math.max\<close> and \<open>Math.min\<close> of two numbers: NaN when either is NaN.\<close>

fun fmax :: "f64 \<Rightarrow> f64 \<Rightarrow> f64" where
  "fmax NaN y = NaN"
| "fmax x NaN = NaN"
| "fmax x y = (if flt x y then y else x)"

fun fmin :: "f64 \<Rightarrow> f64 \<Rightarrow> f64" where
  "fmin NaN y = NaN"
| "fmin x NaN = NaN"
| "fmin x y = (if flt y x then y else x)"

text \<open>
  The operations under the usual symbols, so that the routines below read like the source.
  No algebraic law comes with them: addition and multiplication of binary64 values are
  neither associative nor distributive.
\<close>

instantiation f64 :: "{zero, one, plus, minus, uminus, times, inverse, abs, ord}"
begin

definition zero_f64 :: f64 where
  "zero_f64 = Fin 0"

definition one_f64 :: f64 where
  "one_f64 = Fin 1"

definition plus_f64 :: "f64 \<Rightarrow> f64 \<Rightarrow> f64" where
  "plus_f64 x y = fadd x y"

definition minus_f64 :: "f64 \<Rightarrow> f64 \<Rightarrow> f64" where
  "minus_f64 x y = fsub x y"

definition uminus_f64 :: "f64 \<Rightarrow> f64" where
  "uminus_f64 x = fneg x"

definition times_f64 :: "f64 \<Rightarrow> f64 \<Rightarrow> f64" where
  "times_f64 x y = fmul x y"

definition divide_f64 :: "f64 \<Rightarrow> f64 \<Rightarrow> f64" where
  "divide_f64 x y = fdiv x y"

definition inverse_f64 :: "f64 \<Rightarrow> f64" where
  "inverse_f64 x = fdiv (Fin 1) x"

definition abs_f64 :: "f64 \<Rightarrow> f64" where
  "abs_f64 x = fabs x"

definition less_f64 :: "f64 \<Rightarrow> f64 \<Rightarrow> bool" where
  "less_f64 x y = flt x y"

definition less_eq_f64 :: "f64 \<Rightarrow> f64 \<Rightarrow> bool" where
  "less_eq_f64 x y = (flt x y \<or> (x = y \<and> x \<noteq> NaN))"

instance ..

end

text \<open>\<open>x || 0\<close>: the falsy numbers are zero and NaN.\<close>

definition js_or_f64 :: "f64 \<Rightarrow> f64 \<Rightarrow> f64" where
  "js_or_f64 x d = (if x = NaN \<or> x = Fin 0 then d else x)"

definition finite_f64 :: "f64 \<Rightarrow> bool" where
  "finite_f64 x = (case x of Fin a \<Rightarrow> True | _ \<Rightarrow> False)"


section \<open>The estimator over binary64 values (kalman-filter.ts)\<close>

text \<open>
  The routines of the estimator once more, every operation rounding.  A decimal literal
  of the source is the binary64 value nearest to it (\<open>fl\<close> of the decimal); integers are
  exact.  Products and sums are associated as JavaScript evaluates them, from the left.
\<close>

type_synonym matrix_f64 = "f64 list list"

record Vec2_f64 =
  w2x :: f64
  w2y :: f64

definition matrixMultiply_f64 :: "matrix_f64 \<Rightarrow> matrix_f64 \<Rightarrow> matrix_f64" where
  "matrixMultiply_f64 A B =
     map (\<lambda>i. map (\<lambda>j. foldl (\<lambda>acc k. acc + A ! i ! k * B ! k ! j) 0 [0..<length (A ! 0)])
                   [0..<length (B ! 0)])
         [0..<length A]"

definition matrixAdd_f64 :: "matrix_f64 \<Rightarrow> matrix_f64 \<Rightarrow> matrix_f64" where
  "matrixAdd_f64 A B =
     map (\<lambda>i. map (\<lambda>j. A ! i ! j + B ! i ! j) [0..<length (A ! i)]) [0..<length A]"

definition matrixSubtract_f64 :: "matrix_f64 \<Rightarrow> matrix_f64 \<Rightarrow> matrix_f64" where
  "matrixSubtract_f64 A B =
     map (\<lambda>i. map (\<lambda>j. A ! i ! j - B ! i ! j) [0..<length (A ! i)]) [0..<length A]"

definition scalarMultiply_f64 :: "matrix_f64 \<Rightarrow> f64 \<Rightarrow> matrix_f64" where
  "scalarMultiply_f64 A scalar = map (\<lambda>row. map (\<lambda>val. val * scalar) row) A"

definition transpose_f64 :: "matrix_f64 \<Rightarrow> matrix_f64" where
  "transpose_f64 A = map (\<lambda>i. map (\<lambda>row. row ! i) A) [0..<length (A ! 0)]"

definition identity_f64 :: "nat \<Rightarrow> matrix_f64" where
  "identity_f64 n = map (\<lambda>i. map (\<lambda>j. if i = j then 1 else 0) [0..<n]) [0..<n]"

definition matrixVectorMultiply_f64 :: "matrix_f64 \<Rightarrow> f64 list \<Rightarrow> f64 list" where
  "matrixVectorMultiply_f64 A v =
     map (\<lambda>row. foldl (\<lambda>sum i. sum + row ! i * v ! i) 0 [0..<length row]) A"

definition determinant3x3_f64 :: "matrix_f64 \<Rightarrow> f64" where
  "determinant3x3_f64 A =
     A ! 0 ! 0 * (A ! 1 ! 1 * A ! 2 ! 2 - A ! 1 ! 2 * A ! 2 ! 1) -
     A ! 0 ! 1 * (A ! 1 ! 0 * A ! 2 ! 2 - A ! 1 ! 2 * A ! 2 ! 0) +
     A ! 0 ! 2 * (A ! 1 ! 0 * A ! 2 ! 1 - A ! 1 ! 1 * A ! 2 ! 0)"

definition getMinor_f64 :: "matrix_f64 \<Rightarrow> nat \<Rightarrow> nat \<Rightarrow> nat \<Rightarrow> matrix_f64" where
  "getMinor_f64 A row col n =
     map (\<lambda>i. map (\<lambda>j. A ! i ! j) (filter (\<lambda>j. j \<noteq> col) [0..<n]))
         (filter (\<lambda>i. i \<noteq> row) [0..<n])"

definition determinant4x4_f64 :: "matrix_f64 \<Rightarrow> f64" where
  "determinant4x4_f64 A =
     A ! 0 ! 0 * (A ! 1 ! 1 * A ! 2 ! 2 * A ! 3 ! 3 - A ! 1 ! 1 * A ! 2 ! 3 * A ! 3 ! 2 -
                  A ! 1 ! 2 * A ! 2 ! 1 * A ! 3 ! 3 + A ! 1 ! 2 * A ! 2 ! 3 * A ! 3 ! 1 +
                  A ! 1 ! 3 * A ! 2 ! 1 * A ! 3 ! 2 - A ! 1 ! 3 * A ! 2 ! 2 * A ! 3 ! 1) -
     A ! 0 ! 1 * (A ! 1 ! 0 * A ! 2 ! 2 * A ! 3 ! 3 - A ! 1 ! 0 * A ! 2 ! 3 * A ! 3 ! 2 -
                  A ! 1 ! 2 * A ! 2 ! 0 * A ! 3 ! 3 + A ! 1 ! 2 * A ! 2 ! 3 * A ! 3 ! 0 +
                  A ! 1 ! 3 * A ! 2 ! 0 * A ! 3 ! 2 - A ! 1 ! 3 * A ! 2 ! 2 * A ! 3 ! 0) +
     A ! 0 ! 2 * (A ! 1 ! 0 * A ! 2 ! 1 * A ! 3 ! 3 - A ! 1 ! 0 * A ! 2 ! 3 * A ! 3 ! 1 -
                  A ! 1 ! 1 * A ! 2 ! 0 * A ! 3 ! 3 + A ! 1 ! 1 * A ! 2 ! 3 * A ! 3 ! 0 +
                  A ! 1 ! 3 * A ! 2 ! 0 * A ! 3 ! 1 - A ! 1 ! 3 * A ! 2 ! 1 * A ! 3 ! 0) -
     A ! 0 ! 3 * (A ! 1 ! 0 * A ! 2 ! 1 * A ! 3 ! 2 - A ! 1 ! 0 * A ! 2 ! 2 * A ! 3 ! 1 -
                  A ! 1 ! 1 * A ! 2 ! 0 * A ! 3 ! 2 + A ! 1 ! 1 * A ! 2 ! 2 * A ! 3 ! 0 +
                  A ! 1 ! 2 * A ! 2 ! 0 * A ! 3 ! 1 - A ! 1 ! 2 * A ! 2 ! 1 * A ! 3 ! 0)"

text \<open>
  \<open>adj[j][i] = Math.pow(-1, i + j) * determinant3x3(getMinor(A, i, j, 4))\<close>: entry
  \<open>(r, c)\<close> of the result is written when \<open>j = r\<close> and \<open>i = c\<close>; the power is exactly 1 or -1.
\<close>

definition adjugate4x4_f64 :: "matrix_f64 \<Rightarrow> matrix_f64" where
  "adjugate4x4_f64 A =
     map (\<lambda>r. map (\<lambda>c. (if even (c + r) then Fin 1 else Fin (- 1))
                         * determinant3x3_f64 (getMinor_f64 A c r 4))
                   [0..<4])
         [0..<4]"

definition inverse_m_f64 :: "matrix_f64 \<Rightarrow> matrix_f64" where
  "inverse_m_f64 A =
     (let n = length A in
      if n = 4 then
        (let det = determinant4x4_f64 A in
         if \<bar>det\<bar> < fl (1 / 10 ^ 10) then identity_f64 n
         else map (\<lambda>row. map (\<lambda>val. val / det) row) (adjugate4x4_f64 A))
      else identity_f64 n)"

record StateVector_f64 =
  s64_px :: f64
  s64_py :: f64
  s64_vx :: f64
  s64_vy :: f64
  s64_g :: f64
  s64_m :: f64
  s64_mu :: f64

record ExtendedKalmanFilter_f64 =
  e64_state :: StateVector_f64
  e64_P :: matrix_f64
  e64_Q :: matrix_f64
  e64_R :: f64
  e64_dt :: f64

definition initial_P_f64 :: "f64 \<Rightarrow> matrix_f64" where
  "initial_P_f64 initialCovariance =
     map (\<lambda>i. map (\<lambda>j. if i = j then
                           (if i = 4 then Fin 5 else if i = 5 then Fin 2 else if i = 6 then Fin 1
                            else initialCovariance)
                         else 0) [0..<7]) [0..<7]"

definition initial_Q_f64 :: matrix_f64 where
  "initial_Q_f64 =
     map (\<lambda>i. map (\<lambda>j. if i = j then (if i < 4 then fl (1/100) else fl (1/10000)) else 0)
                   [0..<7]) [0..<7]"

definition new_ekf_f64 :: "StateVector_f64 \<Rightarrow> f64 \<Rightarrow> f64 \<Rightarrow> ExtendedKalmanFilter_f64" where
  "new_ekf_f64 initialState initialCovariance dt =
     \<lparr> e64_state = initialState, e64_P = initial_P_f64 initialCovariance,
       e64_Q = initial_Q_f64, e64_R = fl (1/10), e64_dt = dt \<rparr>"

definition computeJacobian_f64 :: "ExtendedKalmanFilter_f64 \<Rightarrow> matrix_f64" where
  "computeJacobian_f64 f =
     (let vx = s64_vx (e64_state f); vy = s64_vy (e64_state f); \<mu> = s64_mu (e64_state f);
          dt = e64_dt f
      in [[1, 0, dt, 0, 0, 0, 0],
          [0, 1, 0, dt, - fl (1/2) * dt * dt, 0, 0],
          [0, 0, 1 - \<mu> * dt, 0, 0, 0, - vx * dt],
          [0, 0, 0, 1 - \<mu> * dt, - dt, 0, - vy * dt],
          [0, 0, 0, 0, 1, 0, 0],
          [0, 0, 0, 0, 0, 1, 0],
          [0, 0, 0, 0, 0, 0, 1]])"

definition computeObservationMatrix_f64 :: matrix_f64 where
  "computeObservationMatrix_f64 =
     [[1, 0, 0, 0, 0, 0, 0],
      [0, 1, 0, 0, 0, 0, 0],
      [0, 0, 1, 0, 0, 0, 0],
      [0, 0, 0, 1, 0, 0, 0]]"

definition predict_f64 :: "ExtendedKalmanFilter_f64 \<Rightarrow> ExtendedKalmanFilter_f64" where
  "predict_f64 f =
     (let px = s64_px (e64_state f); py = s64_py (e64_state f);
          vx = s64_vx (e64_state f); vy = s64_vy (e64_state f);
          g = s64_g (e64_state f); m = s64_m (e64_state f); \<mu> = s64_mu (e64_state f);
          dt = e64_dt f;
          predictedState =
            \<lparr> s64_px = px + vx * dt + fl (1/2) * 0 * dt * dt,
              s64_py = py + vy * dt - fl (1/2) * g * dt * dt,
              s64_vx = vx - \<mu> * vx * dt,
              s64_vy = vy - g * dt - \<mu> * vy * dt,
              s64_g = g, s64_m = m, s64_mu = \<mu> \<rparr>;
          F = computeJacobian_f64 f;
          P1 = matrixMultiply_f64 (matrixMultiply_f64 F (e64_P f)) (transpose_f64 F);
          P2 = matrixAdd_f64 P1 (e64_Q f)
      in f \<lparr> e64_state := predictedState, e64_P := P2 \<rparr>)"

definition innovation_cov_f64 :: "ExtendedKalmanFilter_f64 \<Rightarrow> matrix_f64" where
  "innovation_cov_f64 f =
     (let H = computeObservationMatrix_f64;
          HP = matrixMultiply_f64 H (e64_P f)
      in matrixAdd_f64 (matrixMultiply_f64 HP (transpose_f64 H))
                       (scalarMultiply_f64 (identity_f64 4) (e64_R f)))"

definition kalman_gain_f64 :: "ExtendedKalmanFilter_f64 \<Rightarrow> matrix_f64" where
  "kalman_gain_f64 f =
     (let H = computeObservationMatrix_f64;
          S = innovation_cov_f64 f
      in matrixMultiply_f64 (matrixMultiply_f64 (e64_P f) (transpose_f64 H)) (inverse_m_f64 S))"

definition update_f64 ::
  "ExtendedKalmanFilter_f64 \<Rightarrow> Vec2_f64 \<Rightarrow> Vec2_f64 \<Rightarrow> ExtendedKalmanFilter_f64" where
  "update_f64 f observedPosition observedVelocity =
     (let s = e64_state f;
          z = [w2x observedPosition, w2y observedPosition, w2x observedVelocity, w2y observedVelocity];
          h = [s64_px s, s64_py s, s64_vx s, s64_vy s];
          y = map (\<lambda>i. z ! i - h ! i) [0..<length z];
          H = computeObservationMatrix_f64;
          K = kalman_gain_f64 f;
          Ky = matrixVectorMultiply_f64 K y;
          paramLearningRate = fl (1/10);
          gUpdate = js_or_f64 (Ky ! 4) 0 * paramLearningRate;
          mUpdate = js_or_f64 (Ky ! 5) 0 * paramLearningRate;
          \<mu>Update = js_or_f64 (Ky ! 6) 0 * paramLearningRate;
          s' = \<lparr> s64_px = s64_px s + Ky ! 0,
                 s64_py = s64_py s + Ky ! 1,
                 s64_vx = s64_vx s + Ky ! 2,
                 s64_vy = s64_vy s + Ky ! 3,
                 s64_g = fmax 0 (fmin (Fin 20) (s64_g s + gUpdate)),
                 s64_m = fmax (fl (1/10)) (fmin (Fin 10) (s64_m s + mUpdate)),
                 s64_mu = fmax 0 (fmin (Fin 2) (s64_mu s + \<mu>Update)) \<rparr>;
          I = identity_f64 7;
          KH = matrixMultiply_f64 K H;
          I_KH = matrixSubtract_f64 I KH
      in f \<lparr> e64_state := s', e64_P := matrixMultiply_f64 I_KH (e64_P f) \<rparr>)"


section \<open>Collision resolution over binary64 values (collision module)\<close>

record Vec3_f64 =
  w3x :: f64
  w3y :: f64
  w3z :: f64

record TrailPoint_f64 =
  tq_x :: f64
  tq_y :: f64
  tq_z :: f64
  tq_variance :: f64

record Particle_f64 =
  q_id :: string
  q_position :: Vec3_f64
  q_velocity :: Vec3_f64
  q_filter :: ExtendedKalmanFilter_f64
  q_variance :: f64
  q_trail :: "TrailPoint_f64 list"
  q_age :: f64

record CollisionEvent_f64 =
  cf_particle1 :: string
  cf_particle2 :: string
  cf_position :: Vec3_f64
  cf_velocity :: Vec3_f64
  cf_impact :: f64

definition collisionRadius_f64 :: f64 where
  "collisionRadius_f64 = fl (4/10)"

definition restitution_f64 :: f64 where
  "restitution_f64 = fl (8/10)"

definition minImpactVelocity_f64 :: f64 where
  "minImpactVelocity_f64 = fl (5/10)"

definition resolve_pair_f64 ::
  "nat \<Rightarrow> nat \<Rightarrow> Particle_f64 list \<times> CollisionEvent_f64 list
     \<Rightarrow> Particle_f64 list \<times> CollisionEvent_f64 list" where
  "resolve_pair_f64 i j st =
     (let particles = fst st; events = snd st;
          p1 = particles ! i; p2 = particles ! j;
          dx = w3x (q_position p2) - w3x (q_position p1);
          dy = w3y (q_position p2) - w3y (q_position p1);
          dz = w3z (q_position p2) - w3z (q_position p1);
          distance = fsqrt (dx * dx + dy * dy + dz * dz)
      in if distance < collisionRadius_f64 * Fin 2 \<and> fl (1/100) < distance then
           (let nx = dx / distance; ny = dy / distance; nz = dz / distance;
                rvx = w3x (q_velocity p2) - w3x (q_velocity p1);
                rvy = w3y (q_velocity p2) - w3y (q_velocity p1);
                rvz = w3z (q_velocity p2) - w3z (q_velocity p1);
                velAlongNormal = rvx * nx + rvy * ny + rvz * nz
            in if 0 < velAlongNormal then st
               else
                 (let impulse = - (1 + restitution_f64) * velAlongNormal;
                      impulseX = impulse * nx * fl (1/2);
                      impulseY = impulse * ny * fl (1/2);
                      impulseZ = impulse * nz * fl (1/2);
                      v1 = \<lparr> w3x = w3x (q_velocity p1) - impulseX,
                             w3y = w3y (q_velocity p1) - impulseY,
                             w3z = w3z (q_velocity p1) - impulseZ \<rparr>;
                      v2 = \<lparr> w3x = w3x (q_velocity p2) + impulseX,
                             w3y = w3y (q_velocity p2) + impulseY,
                             w3z = w3z (q_velocity p2) + impulseZ \<rparr>;
                      overlap = collisionRadius_f64 * Fin 2 - distance;
                      separationX = nx * overlap * fl (1/2);
                      separationY = ny * overlap * fl (1/2);
                      separationZ = nz * overlap * fl (1/2);
                      q1 = \<lparr> w3x = w3x (q_position p1) - separationX,
                             w3y = w3y (q_position p1) - separationY,
                             w3z = w3z (q_position p1) - separationZ \<rparr>;
                      q2 = \<lparr> w3x = w3x (q_position p2) + separationX,
                             w3y = w3y (q_position p2) + separationY,
                             w3z = w3z (q_position p2) + separationZ \<rparr>;
                      p1' = p1 \<lparr> q_velocity := v1, q_position := q1 \<rparr>;
                      p2' = p2 \<lparr> q_velocity := v2, q_position := q2 \<rparr>;
                      impactStrength = \<bar>velAlongNormal\<bar>;
                      events' =
                        (if minImpactVelocity_f64 < impactStrength then
                           events @
                           [\<lparr> cf_particle1 = q_id p1', cf_particle2 = q_id p2',
                              cf_position = \<lparr> w3x = (w3x q1 + w3x q2) / Fin 2,
                                               w3y = (w3y q1 + w3y q2) / Fin 2,
                                               w3z = (w3z q1 + w3z q2) / Fin 2 \<rparr>,
                              cf_velocity = \<lparr> w3x = (w3x v1 + w3x v2) / Fin 2,
                                               w3y = (w3y v1 + w3y v2) / Fin 2,
                                               w3z = (w3z v1 + w3z v2) / Fin 2 \<rparr>,
                              cf_impact = impactStrength \<rparr>]
                         else events)
                  in (particles[i := p1', j := p2'], events')))
         else st)"

definition checkParticleCollisions_f64 ::
  "Particle_f64 list \<Rightarrow> Particle_f64 list \<times> CollisionEvent_f64 list" where
  "checkParticleCollisions_f64 particles =
     (let n = length particles in
      foldl (\<lambda>st i. foldl (\<lambda>st' j. resolve_pair_f64 i j st') st [i + 1..<n]) (particles, []) [0..<n])"


section \<open>Shapes and properties of matrices\<close>

definition mat :: "nat \<Rightarrow> nat \<Rightarrow> matrix \<Rightarrow> bool" where
  "mat r c A = (length A = r \<and> list_all (\<lambda>row. length row = c) A)"

definition symmetric :: "nat \<Rightarrow> matrix \<Rightarrow> bool" where
  "symmetric n A = list_all (\<lambda>i. list_all (\<lambda>j. A ! i ! j = A ! j ! i) [0..<n]) [0..<n]"

text \<open>A filter as the constructor builds it and the two steps keep it.\<close>

definition ekf_shape :: "ExtendedKalmanFilter \<Rightarrow> bool" where
  "ekf_shape f = (mat 7 7 (ekf_P f) \<and> ekf_Q f = initial_Q \<and> ekf_R f = 1/10)"

section \<open>Measurements on particles\<close>



section \<open>A head-on scenario\<close>



section \<open>Positive semi-definiteness\<close>






section \<open>Sequences of estimator calls\<close>

datatype ekf_call = Predict | Update Vec2 Vec2



section \<open>Rounding: exponent, nearest integer, certificates\<close>

text \<open>
  The exponent and the nearest integer are determined by the inequalities that define
  them, so a rounding is certified by its exponent and its result, with comparisons and
  multiplications only.
\<close>

lemma huge_numeral: "huge = 179769313486231590772930519078902473361797697894230657273430081157732675805500963132708477322407536021120113879871393357658789768814416622492847430639474124377767893424865485276302219601246094119453082952085005768838150682342462881473913110540827237163350510684586298239947245938479716304835356329624224137216"
  by (simp add: huge_def)

lemma blen_unique: "2 ^ k \<le> n \<Longrightarrow> n < 2 ^ Suc k \<Longrightarrow> blen n = Suc k"
proof (induction k arbitrary: n)
  case 0
  then have "n = 1" by simp
  then show ?case by (simp add: blen.simps)
next
  case (Suc k)
  have p: "(0::nat) < 2 ^ Suc k"
    by simp
  have n: "n \<noteq> 0"
    using Suc.prems(1) p by linarith
  have "2 ^ k \<le> n div 2" "n div 2 < 2 ^ Suc k"
    using Suc.prems by simp_all
  then have "blen (n div 2) = Suc k"
    by (rule Suc.IH)
  then show ?case
    using n by (subst blen.simps) simp
qed

lemma pow2_pos: "0 < pow2 e"
  by (simp add: pow2_def)

lemma pow2_nonneg: "0 \<le> e \<Longrightarrow> pow2 e = 2 ^ nat e"
  by (simp add: pow2_def)

lemma pow2_neg: "e < 0 \<Longrightarrow> pow2 e = 1 / 2 ^ nat (- e)"
  by (simp add: pow2_def)

lemma pow2_powr: "pow2 e = 2 powr (real_of_int e)"
proof (cases "0 \<le> e")
  case True
  then show ?thesis
    by (simp add: pow2_def powr_realpow[symmetric])
next
  case False
  then have "2 powr (real_of_int e) = 1 / 2 powr (real_of_int (- e))"
    by (simp add: powr_minus_divide)
  also have "2 powr (real_of_int (- e)) = 2 ^ nat (- e)"
    using False by (subst powr_realpow[symmetric]) simp_all
  finally show ?thesis
    using False by (simp add: pow2_def)
qed

lemma pow2_add: "pow2 (a + b) = pow2 a * pow2 b"
  by (simp add: pow2_powr powr_add)

lemma pow2_Suc: "pow2 (e + 1) = 2 * pow2 e"
  by (simp add: pow2_add) (simp add: pow2_def)

lemma pow2_mono: "a \<le> b \<Longrightarrow> pow2 a \<le> pow2 b"
  by (simp add: pow2_powr)

lemma pow2_less_iff: "pow2 a < pow2 b \<longleftrightarrow> a < b"
  by (simp add: pow2_powr)

lemma expo_unique:
  assumes lo: "pow2 e \<le> \<bar>x\<bar>" and hi: "\<bar>x\<bar> < 2 * pow2 e"
  shows "expo x = e"
proof (cases "1 \<le> \<bar>x\<bar>")
  case True
  have "pow2 0 < pow2 (e + 1)"
    using True hi by (simp add: pow2_Suc) (simp add: pow2_def)
  then have e: "0 \<le> e"
    by (simp add: pow2_less_iff)
  let ?n = "nat \<lfloor>\<bar>x\<bar>\<rfloor>"
  have fl: "real_of_int \<lfloor>\<bar>x\<bar>\<rfloor> \<le> \<bar>x\<bar>" "\<bar>x\<bar> < real_of_int \<lfloor>\<bar>x\<bar>\<rfloor> + 1"
    by linarith+
  have "(2::real) ^ nat e \<le> \<bar>x\<bar>"
    using lo e by (simp add: pow2_nonneg)
  then have "(2::int) ^ nat e \<le> \<lfloor>\<bar>x\<bar>\<rfloor>"
    by (simp add: le_floor_iff)
  then have a: "2 ^ nat e \<le> ?n"
    by (simp add: le_nat_iff)
  have "\<bar>x\<bar> < 2 ^ Suc (nat e)"
    using hi e by (simp add: pow2_nonneg)
  then have "\<lfloor>\<bar>x\<bar>\<rfloor> < 2 ^ Suc (nat e)"
    by (simp add: floor_less_iff)
  then have b: "?n < 2 ^ Suc (nat e)"
    by (simp add: nat_less_iff)
  have "blen ?n = Suc (nat e)"
    using a b by (rule blen_unique)
  then show ?thesis
    using True e by (simp add: expo_def)
next
  case False
  then have x1: "\<bar>x\<bar> < 1"
    by simp
  have x0: "0 < \<bar>x\<bar>"
    using lo pow2_pos[of e] by linarith
  have "pow2 e < pow2 0"
    using lo x1 by (simp add: pow2_def)
  then have e: "e < 0"
    by (simp add: pow2_less_iff)
  define k where "k = nat (- e - 1)"
  have ke: "- e = int (Suc k)"
    using e by (simp add: k_def)
  have ne: "nat (- e) = Suc k"
    unfolding ke by (rule nat_int)
  have pe: "pow2 e = 1 / 2 ^ Suc k"
    using e by (simp only: pow2_neg ne)
  let ?y = "1 / \<bar>x\<bar>"
  let ?c = "\<lceil>?y\<rceil>"
  have y_le: "?y \<le> 2 ^ Suc k"
  proof -
    have "1 / 2 ^ Suc k \<le> \<bar>x\<bar>"
      using lo unfolding pe .
    then have "1 \<le> \<bar>x\<bar> * 2 ^ Suc k"
      by (simp add: field_simps)
    then show ?thesis
      using x0 by (simp add: field_simps)
  qed
  have y_gt: "2 ^ k < ?y"
  proof -
    have "\<bar>x\<bar> < 2 * (1 / 2 ^ Suc k)"
      using hi unfolding pe .
    then have "\<bar>x\<bar> * 2 ^ k < 1"
      by (simp add: field_simps)
    then show ?thesis
      using x0 by (simp add: field_simps)
  qed
  have c_le: "?c \<le> 2 ^ Suc k"
    using y_le by (simp add: ceiling_le_iff)
  have c_gt: "2 ^ k < ?c"
    using y_gt by (simp add: less_ceiling_iff)
  let ?n = "nat (?c - 1)"
  have a: "2 ^ k \<le> ?n"
  proof -
    have "(2::int) ^ k \<le> ?c - 1"
      using c_gt by simp
    moreover have "(0::int) \<le> ?c - 1"
      using c_gt zero_le_power[of "2::int" k] by linarith
    ultimately show ?thesis
      by (simp add: le_nat_iff)
  qed
  have b: "?n < 2 ^ Suc k"
  proof -
    have "?c - 1 < 2 ^ Suc k"
      using c_le by simp
    moreover have "(0::int) \<le> ?c - 1"
      using c_gt zero_le_power[of "2::int" k] by linarith
    ultimately show ?thesis
      by (simp add: nat_less_iff)
  qed
  have "blen ?n = Suc k"
    using a b by (rule blen_unique)
  then show ?thesis
    using False ke by (simp add: expo_def)
qed

lemma rne_unique:
  assumes "\<bar>x - of_int m\<bar> < 1/2"
  shows "rne x = m"
proof (cases "of_int m \<le> x")
  case True
  then have "\<lfloor>x\<rfloor> = m"
    using assms by (intro floor_unique) linarith+
  then show ?thesis
    using assms True by (simp add: rne_def tie_even_def)
next
  case False
  have m1: "real_of_int (m - 1) = real_of_int m - 1"
    by simp
  have "real_of_int (m - 1) \<le> x" "x < real_of_int (m - 1) + 1"
    unfolding m1 using assms False by linarith+
  then have f: "\<lfloor>x\<rfloor> = m - 1"
    by (rule floor_unique)
  have "1/2 < x - of_int (m - 1)"
    unfolding m1 using assms False by linarith
  then show ?thesis
    using f by (simp add: rne_def tie_even_def)
qed

lemma rne_tie:
  assumes "x - of_int m = 1/2 \<or> of_int m - x = 1/2" "even m"
  shows "rne x = m"
proof -
  from assms(1) show ?thesis
  proof
    assume a: "x - of_int m = 1/2"
    then have "\<lfloor>x\<rfloor> = m"
      by (intro floor_unique) linarith+
    then show ?thesis
      using a assms(2) by (simp add: rne_def tie_even_def)
  next
    assume a: "of_int m - x = 1/2"
    have m1: "real_of_int (m - 1) = real_of_int m - 1"
      by simp
    have "real_of_int (m - 1) \<le> x" "x < real_of_int (m - 1) + 1"
      unfolding m1 using a by linarith+
    then have f: "\<lfloor>x\<rfloor> = m - 1"
      by (rule floor_unique)
    have "x - of_int (m - 1) = 1/2"
      unfolding m1 using a by linarith
    then show ?thesis
      using f assms(2) by (simp add: rne_def tie_even_def)
  qed
qed

text \<open>
  Certified rounding: a real \<open>x\<close> in the binade of exponent \<open>e\<close> rounds to \<open>v\<close> when \<open>v\<close> is a
  multiple of the spacing \<open>pow2 (e - 52)\<close> less than half a spacing away.
\<close>

lemma fl_cert:
  assumes lo: "pow2 e \<le> \<bar>x\<bar>" and hi: "\<bar>x\<bar> < 2 * pow2 e" and e: "- 1022 \<le> e"
    and m: "v / pow2 (e - 52) \<in> \<int>" and near: "\<bar>x - v\<bar> < pow2 (e - 53)" and fin: "\<bar>v\<bar> < huge"
  shows "fl x = Fin v"
proof -
  have x0: "x \<noteq> 0"
    using lo pow2_pos[of e] by auto
  have ex: "expo x = e"
    using lo hi by (rule expo_unique)
  have u: "ulp x = pow2 (e - 52)"
    using e by (simp add: ulp_def ex)
  obtain k where k: "v / pow2 (e - 52) = of_int k"
    using m by (auto elim: Ints_cases)
  have q: "0 < pow2 (e - 52)"
    by (rule pow2_pos)
  have h: "pow2 (e - 52) = 2 * pow2 (e - 53)"
    using pow2_Suc[of "e - 53"] by simp
  have v: "v = of_int k * pow2 (e - 52)"
    using k q by (simp add: field_simps)
  have "x / pow2 (e - 52) - of_int k = (x - v) / pow2 (e - 52)"
    using q by (simp add: v field_simps)
  then have "\<bar>x / pow2 (e - 52) - of_int k\<bar> = \<bar>x - v\<bar> / pow2 (e - 52)"
    using q by (simp add: abs_divide)
  also have "\<dots> < 1/2"
    using near q h by (simp add: field_simps)
  finally have "rne (x / pow2 (e - 52)) = k"
    by (rule rne_unique)
  then have "round_to (ulp x) x = v"
    by (simp add: round_to_def u v)
  moreover have "\<not> huge \<le> v" "\<not> v \<le> - huge"
    using fin by linarith+
  ultimately show ?thesis
    using x0 by (simp add: fl_def overflow_def)
qed

lemma rne_ge_floor: "\<lfloor>x\<rfloor> \<le> rne x"
  by (simp add: rne_def tie_even_def)

text \<open>A real of binary exponent 1024 or more rounds to infinity.\<close>

lemma fl_overflow:
  assumes lo: "pow2 e \<le> x" and hi: "x < 2 * pow2 e" and e: "1024 \<le> e"
  shows "fl x = PInf"
proof -
  have x0: "0 < x"
    using lo pow2_pos[of e] by linarith
  have ex: "expo x = e"
    using lo hi x0 by (intro expo_unique) simp_all
  have u: "ulp x = pow2 (e - 52)"
    using e by (simp add: ulp_def ex)
  have q: "0 < pow2 (e - 52)"
    by (rule pow2_pos)
  have s: "pow2 e = pow2 52 * pow2 (e - 52)"
    using pow2_add[of 52 "e - 52"] by simp
  have p52: "pow2 52 = of_int (2 ^ 52)"
    by (simp add: pow2_def)
  have "of_int (2 ^ 52) \<le> x / pow2 (e - 52)"
    using lo q unfolding s p52 by (simp add: field_simps)
  then have "2 ^ 52 \<le> \<lfloor>x / pow2 (e - 52)\<rfloor>"
    by (simp only: le_floor_iff)
  then have "2 ^ 52 \<le> rne (x / pow2 (e - 52))"
    using rne_ge_floor[of "x / pow2 (e - 52)"] by linarith
  then have "of_int (2 ^ 52) \<le> real_of_int (rne (x / pow2 (e - 52)))"
    by (simp only: of_int_le_iff)
  then have "of_int (2 ^ 52) * pow2 (e - 52) \<le> round_to (ulp x) x"
    using q by (simp add: round_to_def u)
  then have "pow2 e \<le> round_to (ulp x) x"
    unfolding s p52 .
  moreover have "huge \<le> pow2 e"
    using pow2_mono[OF e] by (simp add: huge_def pow2_def)
  ultimately have "huge \<le> round_to (ulp x) x"
    by linarith
  then show ?thesis
    using x0 by (simp add: fl_def overflow_def)
qed

lemma fl_zero: "fl 0 = Fin 0"
  by (simp add: fl_def)

lemmas f64_ops = zero_f64_def one_f64_def plus_f64_def minus_f64_def uminus_f64_def times_f64_def
  divide_f64_def abs_f64_def less_f64_def fsub_def

section \<open>Entries of the matrix routines\<close>

lemma upt4: "[0..<4] = [0, 1, 2, 3]"
  by (simp add: upt_rec)

lemma upt7: "[0..<7] = [0, 1, 2, 3, 4, 5, 6]"
  by (simp add: upt_rec)

lemma foldl_add_sum: "foldl (\<lambda>acc k. acc + f k) a [0..<n] = a + (\<Sum>k<n. f k)"
  by (induction n) (simp_all add: add.assoc)

lemma mat_length: "mat r c A \<Longrightarrow> length A = r"
  by (simp add: mat_def)

lemma mat_row: "mat r c A \<Longrightarrow> i < r \<Longrightarrow> length (A ! i) = c"
  by (simp add: mat_def list_all_length)

lemma matI: "length A = r \<Longrightarrow> (\<And>i. i < r \<Longrightarrow> length (A ! i) = c) \<Longrightarrow> mat r c A"
  by (simp add: mat_def list_all_length)

lemma symmetric_iff: "symmetric n A \<longleftrightarrow> (\<forall>i<n. \<forall>j<n. A ! i ! j = A ! j ! i)"
  by (simp add: symmetric_def list_all_length)

lemma matrixMultiply_nth:
  assumes "mat r n A" "mat n c B" "0 < n" "i < r" "j < c"
  shows "matrixMultiply A B ! i ! j = (\<Sum>k<n. A ! i ! k * B ! k ! j)"
proof -
  have "length (A ! 0) = n" "length (B ! 0) = c" "length A = r"
    using assms by (simp_all add: mat_row mat_length)
  then show ?thesis
    using assms by (simp add: matrixMultiply_def foldl_add_sum)
qed

lemma mat_matrixMultiply:
  assumes "mat r n A" "mat n c B" "0 < n"
  shows "mat r c (matrixMultiply A B)"
proof -
  have "length (B ! 0) = c" "length A = r"
    using assms by (simp_all add: mat_row mat_length)
  then show ?thesis
    by (simp add: matrixMultiply_def mat_def list_all_length)
qed

lemma matrixAdd_nth:
  "mat r c A \<Longrightarrow> i < r \<Longrightarrow> j < c \<Longrightarrow> matrixAdd A B ! i ! j = A ! i ! j + B ! i ! j"
  by (simp add: matrixAdd_def mat_row mat_length)

lemma mat_matrixAdd: "mat r c A \<Longrightarrow> mat r c (matrixAdd A B)"
  by (simp add: matrixAdd_def mat_def list_all_length)

lemma matrixSubtract_nth:
  "mat r c A \<Longrightarrow> i < r \<Longrightarrow> j < c \<Longrightarrow> matrixSubtract A B ! i ! j = A ! i ! j - B ! i ! j"
  by (simp add: matrixSubtract_def mat_row mat_length)

lemma mat_matrixSubtract: "mat r c A \<Longrightarrow> mat r c (matrixSubtract A B)"
  by (simp add: matrixSubtract_def mat_def list_all_length)

lemma transpose_m_nth:
  "mat r c A \<Longrightarrow> 0 < r \<Longrightarrow> i < c \<Longrightarrow> j < r \<Longrightarrow> transpose_m A ! i ! j = A ! j ! i"
  by (simp add: transpose_m_def mat_row mat_length)

lemma mat_transpose_m: "mat r c A \<Longrightarrow> 0 < r \<Longrightarrow> mat c r (transpose_m A)"
  by (simp add: transpose_m_def mat_def list_all_length)

lemma identity_nth: "i < n \<Longrightarrow> j < n \<Longrightarrow> identity n ! i ! j = (if i = j then 1 else 0)"
  by (simp add: identity_def)

lemma mat_identity: "mat n n (identity n)"
  by (simp add: identity_def mat_def list_all_length)

lemma scalarMultiply_nth:
  "mat r c A \<Longrightarrow> i < r \<Longrightarrow> j < c \<Longrightarrow> scalarMultiply A s ! i ! j = A ! i ! j * s"
  by (simp add: scalarMultiply_def mat_row mat_length)

lemma mat_scalarMultiply: "mat r c A \<Longrightarrow> mat r c (scalarMultiply A s)"
  by (simp add: scalarMultiply_def mat_def list_all_length)

lemma matrix_eqI:
  assumes "mat r c A" "mat r c B" "\<And>i j. i < r \<Longrightarrow> j < c \<Longrightarrow> A ! i ! j = B ! i ! j"
  shows "A = B"
proof (rule nth_equalityI)
  show "length A = length B" using assms by (simp add: mat_length)
  fix i assume "i < length A"
  then have i: "i < r" using assms by (simp add: mat_length)
  show "A ! i = B ! i"
    using assms i by (intro nth_equalityI) (simp_all add: mat_row)
qed

lemma sum4: "(\<Sum>k<4. f k) = f 0 + f 1 + f 2 + f (3::nat)"
  by (simp add: eval_nat_numeral)

lemma sum7: "(\<Sum>k<7. f k) = f 0 + f 1 + f 2 + f 3 + f 4 + f 5 + f (6::nat)"
  by (simp add: eval_nat_numeral)

lemma less4_cases: "i < 4 \<Longrightarrow> i = 0 \<or> i = 1 \<or> i = 2 \<or> i = (3::nat)"
  by arith

lemma less7_cases: "i < 7 \<Longrightarrow> i = 0 \<or> i = 1 \<or> i = 2 \<or> i = 3 \<or> i = 4 \<or> i = 5 \<or> i = (6::nat)"
  by arith

lemma len4: "length (r::'a list) = 4 \<Longrightarrow> \<exists>a b c d. r = [a, b, c, d]"
  by (auto simp: length_Suc_conv eval_nat_numeral)

lemma mat44_explicit:
  assumes "mat 4 4 A"
  obtains a00 a01 a02 a03 a10 a11 a12 a13 a20 a21 a22 a23 a30 a31 a32 a33 where
    "A = [[a00, a01, a02, a03], [a10, a11, a12, a13], [a20, a21, a22, a23], [a30, a31, a32, a33]]"
proof -
  from assms have l: "length A = 4" and r: "list_all (\<lambda>row. length row = 4) A"
    by (simp_all add: mat_def)
  from l obtain r0 r1 r2 r3 where A: "A = [r0, r1, r2, r3]"
    using len4 by blast
  from r A have "length r0 = 4" "length r1 = 4" "length r2 = 4" "length r3 = 4"
    by simp_all
  then obtain a00 a01 a02 a03 a10 a11 a12 a13 a20 a21 a22 a23 a30 a31 a32 a33 where
    "r0 = [a00, a01, a02, a03]" "r1 = [a10, a11, a12, a13]"
    "r2 = [a20, a21, a22, a23]" "r3 = [a30, a31, a32, a33]"
    using len4 by metis
  with A that show thesis by blast
qed


lemma mat_adjugate4x4: "mat 4 4 (adjugate4x4 A)"
  by (simp add: mat_def adjugate4x4_def upt4)



lemma inverse_m_regular:
  assumes "mat 4 4 S" "\<not> \<bar>determinant4x4 S\<bar> < 1 / 10 ^ 10"
  shows "inverse_m S = map (\<lambda>row. map (\<lambda>val. val / determinant4x4 S) row) (adjugate4x4 S)"
  using assms by (simp add: inverse_m_def mat_def Let_def)


lemma mat_computeObservationMatrix: "mat 4 7 computeObservationMatrix"
  by (simp add: computeObservationMatrix_def mat_def)

lemma mat_computeJacobian: "mat 7 7 (computeJacobian f)"
  by (simp add: computeJacobian_def mat_def Let_def)

lemma mat_initial_Q: "mat 7 7 initial_Q"
  by (simp add: initial_Q_def mat_def)

lemma mat_initial_P: "mat 7 7 (initial_P c)"
  by (simp add: initial_P_def mat_def)

lemma mat_innovation_cov: "mat 7 7 (ekf_P f) \<Longrightarrow> mat 4 4 (innovation_cov f)"
  unfolding innovation_cov_def Let_def
  by (intro mat_matrixAdd mat_matrixMultiply[where n = 7] mat_transpose_m
      mat_computeObservationMatrix) simp_all

section \<open>Entries of the predicted covariance\<close>

lemma ekf_P_predict:
  "ekf_P (predict f) =
     matrixAdd (matrixMultiply (matrixMultiply (computeJacobian f) (ekf_P f))
                  (transpose_m (computeJacobian f))) (ekf_Q f)"
  by (simp add: predict_def Let_def)

lemma predict_P_nth:
  assumes "mat 7 7 (ekf_P f)" "i < 7" "j < 7"
  shows "ekf_P (predict f) ! i ! j =
     (\<Sum>k<7. (\<Sum>l<7. computeJacobian f ! i ! l * ekf_P f ! l ! k) * computeJacobian f ! j ! k)
     + ekf_Q f ! i ! j"
proof -
  let ?F = "computeJacobian f"
  have FP: "mat 7 7 (matrixMultiply ?F (ekf_P f))"
    using mat_computeJacobian assms(1) by (rule mat_matrixMultiply) simp
  have Ft: "mat 7 7 (transpose_m ?F)"
    using mat_computeJacobian by (rule mat_transpose_m) simp
  have FPF: "mat 7 7 (matrixMultiply (matrixMultiply ?F (ekf_P f)) (transpose_m ?F))"
    using FP Ft by (rule mat_matrixMultiply) simp
  show ?thesis
    unfolding ekf_P_predict
    using assms(2,3)
    by (simp add: matrixAdd_nth[OF FPF] matrixMultiply_nth[OF FP Ft]
        matrixMultiply_nth[OF mat_computeJacobian assms(1)]
        transpose_m_nth[OF mat_computeJacobian])
qed

lemma mat_predict: "mat 7 7 (ekf_P f) \<Longrightarrow> mat 7 7 (ekf_P (predict f))"
  unfolding ekf_P_predict
  by (intro mat_matrixAdd mat_matrixMultiply[where n = 7] mat_transpose_m mat_computeJacobian)
     simp_all

lemma ekf_shape_predict: "ekf_shape f \<Longrightarrow> ekf_shape (predict f)"
  using mat_predict[of f] by (simp add: ekf_shape_def) (simp add: predict_def Let_def)

lemma ekf_shape_new_ekf: "ekf_shape (new_ekf s c dt)"
  by (simp add: ekf_shape_def new_ekf_def mat_initial_P)

section \<open>Entries of the gain and of the corrected covariance\<close>

lemma H_nth:
  assumes "a < 4" "k < 7"
  shows "computeObservationMatrix ! a ! k = (if a = k then 1 else 0)"
proof -
  from assms(1) have "a = 0 \<or> a = 1 \<or> a = 2 \<or> a = 3"
    by (rule less4_cases)
  moreover from assms(2) have "k = 0 \<or> k = 1 \<or> k = 2 \<or> k = 3 \<or> k = 4 \<or> k = 5 \<or> k = 6"
    by (rule less7_cases)
  ultimately show ?thesis
    by (elim disjE) (simp_all add: computeObservationMatrix_def)
qed

lemma sum_H_right:
  assumes "a < 4"
  shows "(\<Sum>k<7. f k * computeObservationMatrix ! a ! k) = f a"
proof -
  have "(\<Sum>k<7. f k * computeObservationMatrix ! a ! k) = (\<Sum>k<7. if a = k then f k else 0)"
    using assms by (intro sum.cong) (simp_all add: H_nth)
  also have "\<dots> = f a"
    using assms by (simp add: sum.delta')
  finally show ?thesis .
qed

lemma sum_H_left:
  assumes "k < 7"
  shows "(\<Sum>a<4. f a * computeObservationMatrix ! a ! k) = (if k < 4 then f k else 0)"
proof -
  have "(\<Sum>a<4. f a * computeObservationMatrix ! a ! k) = (\<Sum>a<4. if k = a then f a else 0)"
    using assms by (intro sum.cong) (auto simp: H_nth)
  also have "\<dots> = (if k < 4 then f k else 0)"
    by (simp add: sum.delta')
  finally show ?thesis .
qed

lemma mat_PHt: "mat 7 7 P \<Longrightarrow> mat 7 4 (matrixMultiply P (transpose_m computeObservationMatrix))"
  by (intro mat_matrixMultiply[where n = 7] mat_transpose_m mat_computeObservationMatrix) simp_all

lemma PHt_nth:
  assumes "mat 7 7 P" "i < 7" "b < 4"
  shows "matrixMultiply P (transpose_m computeObservationMatrix) ! i ! b = P ! i ! b"
proof -
  have Ht: "mat 7 4 (transpose_m computeObservationMatrix)"
    by (intro mat_transpose_m mat_computeObservationMatrix) simp
  have "matrixMultiply P (transpose_m computeObservationMatrix) ! i ! b
        = (\<Sum>k<7. P ! i ! k * transpose_m computeObservationMatrix ! k ! b)"
    using assms by (simp add: matrixMultiply_nth[OF assms(1) Ht])
  also have "\<dots> = (\<Sum>k<7. P ! i ! k * computeObservationMatrix ! b ! k)"
    using assms by (intro sum.cong) (simp_all add: transpose_m_nth[OF mat_computeObservationMatrix])
  also have "\<dots> = P ! i ! b"
    using assms(3) by (rule sum_H_right)
  finally show ?thesis .
qed

lemma innovation_cov_nth:
  assumes "mat 7 7 (ekf_P f)" "a < 4" "b < 4"
  shows "innovation_cov f ! a ! b = ekf_P f ! a ! b + (if a = b then ekf_R f else 0)"
proof -
  let ?H = computeObservationMatrix
  have HP: "mat 4 7 (matrixMultiply ?H (ekf_P f))"
    using mat_computeObservationMatrix assms(1) by (rule mat_matrixMultiply) simp
  have Ht: "mat 7 4 (transpose_m ?H)"
    by (intro mat_transpose_m mat_computeObservationMatrix) simp
  have HPH: "mat 4 4 (matrixMultiply (matrixMultiply ?H (ekf_P f)) (transpose_m ?H))"
    using HP Ht by (rule mat_matrixMultiply) simp
  have hp: "matrixMultiply ?H (ekf_P f) ! a ! k = ekf_P f ! a ! k" if "k < 7" for k
  proof -
    have "matrixMultiply ?H (ekf_P f) ! a ! k = (\<Sum>l<7. ?H ! a ! l * ekf_P f ! l ! k)"
      using assms that by (simp add: matrixMultiply_nth[OF mat_computeObservationMatrix assms(1)])
    also have "\<dots> = (\<Sum>l<7. ekf_P f ! l ! k * ?H ! a ! l)"
      by (simp add: mult.commute)
    also have "\<dots> = ekf_P f ! a ! k"
      using assms(2) by (rule sum_H_right)
    finally show ?thesis .
  qed
  have "matrixMultiply (matrixMultiply ?H (ekf_P f)) (transpose_m ?H) ! a ! b
        = (\<Sum>k<7. matrixMultiply ?H (ekf_P f) ! a ! k * transpose_m ?H ! k ! b)"
    using assms by (simp add: matrixMultiply_nth[OF HP Ht])
  also have "\<dots> = (\<Sum>k<7. ekf_P f ! a ! k * ?H ! b ! k)"
    using assms by (intro sum.cong) (simp_all add: hp transpose_m_nth[OF mat_computeObservationMatrix])
  also have "\<dots> = ekf_P f ! a ! b"
    using assms(3) by (rule sum_H_right)
  finally have 1: "matrixMultiply (matrixMultiply ?H (ekf_P f)) (transpose_m ?H) ! a ! b = ekf_P f ! a ! b" .
  show ?thesis
    unfolding innovation_cov_def Let_def
    using assms(2,3) 1
    by (simp add: matrixAdd_nth[OF HPH] scalarMultiply_nth[OF mat_identity] identity_nth)
qed

lemma mat_inverse_m: "mat 4 4 S \<Longrightarrow> mat 4 4 (inverse_m S)"
  using mat_adjugate4x4[of S]
  by (simp add: inverse_m_def Let_def mat_identity) (simp add: mat_def list_all_length)

lemma mat_kalman_gain: "mat 7 7 (ekf_P f) \<Longrightarrow> mat 7 4 (kalman_gain f)"
  unfolding kalman_gain_def Let_def
  by (intro mat_matrixMultiply[where n = 4] mat_PHt mat_inverse_m mat_innovation_cov) simp_all

lemma kalman_gain_nth:
  assumes "mat 7 7 (ekf_P f)" "i < 7" "a < 4"
  shows "kalman_gain f ! i ! a = (\<Sum>b<4. ekf_P f ! i ! b * inverse_m (innovation_cov f) ! b ! a)"
proof -
  have Si: "mat 4 4 (inverse_m (innovation_cov f))"
    using assms(1) by (intro mat_inverse_m mat_innovation_cov)
  have "kalman_gain f ! i ! a
      = (\<Sum>b<4. matrixMultiply (ekf_P f) (transpose_m computeObservationMatrix) ! i ! b
                 * inverse_m (innovation_cov f) ! b ! a)"
    unfolding kalman_gain_def Let_def
    using assms by (simp add: matrixMultiply_nth[OF mat_PHt[OF assms(1)] Si])
  also have "\<dots> = (\<Sum>b<4. ekf_P f ! i ! b * inverse_m (innovation_cov f) ! b ! a)"
    using assms by (intro sum.cong) (simp_all add: PHt_nth)
  finally show ?thesis .
qed

lemma ekf_P_update:
  "ekf_P (update f op ov) =
     matrixMultiply (matrixSubtract (identity 7) (matrixMultiply (kalman_gain f) computeObservationMatrix))
       (ekf_P f)"
  by (simp add: update_def Let_def)


lemma update_P_nth:
  assumes "mat 7 7 (ekf_P f)" "i < 7" "j < 7"
  shows "ekf_P (update f op ov) ! i ! j =
     ekf_P f ! i ! j -
     (\<Sum>a<4. (\<Sum>b<4. ekf_P f ! i ! b * inverse_m (innovation_cov f) ! b ! a) * ekf_P f ! a ! j)"
proof -
  let ?K = "kalman_gain f" and ?H = computeObservationMatrix and ?P = "ekf_P f"
  have K: "mat 7 4 ?K" using assms(1) by (rule mat_kalman_gain)
  have KH: "mat 7 7 (matrixMultiply ?K ?H)"
    using K mat_computeObservationMatrix by (rule mat_matrixMultiply) simp
  have IKH: "mat 7 7 (matrixSubtract (identity 7) (matrixMultiply ?K ?H))"
    by (intro mat_matrixSubtract mat_identity)
  have kh: "matrixMultiply ?K ?H ! i ! k = (if k < 4 then ?K ! i ! k else 0)" if "k < 7" for k
  proof -
    have "matrixMultiply ?K ?H ! i ! k = (\<Sum>a<4. ?K ! i ! a * ?H ! a ! k)"
      using assms that by (simp add: matrixMultiply_nth[OF K mat_computeObservationMatrix])
    also have "\<dots> = (if k < 4 then ?K ! i ! k else 0)"
      using that by (rule sum_H_left)
    finally show ?thesis .
  qed
  have "ekf_P (update f op ov) ! i ! j
      = (\<Sum>k<7. matrixSubtract (identity 7) (matrixMultiply ?K ?H) ! i ! k * ?P ! k ! j)"
    unfolding ekf_P_update using assms by (simp add: matrixMultiply_nth[OF IKH assms(1)])
  also have "\<dots> = (\<Sum>k<7. ((if i = k then 1 else 0) - (if k < 4 then ?K ! i ! k else 0)) * ?P ! k ! j)"
    using assms by (intro sum.cong) (simp_all add: matrixSubtract_nth[OF mat_identity] identity_nth kh)
  also have "\<dots> = (\<Sum>k<7. (if i = k then ?P ! k ! j else 0)) - (\<Sum>k<7. if k < 4 then ?K ! i ! k * ?P ! k ! j else 0)"
    unfolding sum_subtractf[symmetric] by (intro sum.cong) (auto simp: algebra_simps)
  also have "(\<Sum>k<7. (if i = k then ?P ! k ! j else 0)) = ?P ! i ! j"
    using assms(2) by (simp add: sum.delta')
  also have "(\<Sum>k<7. if k < 4 then ?K ! i ! k * ?P ! k ! j else 0) = (\<Sum>a<4. ?K ! i ! a * ?P ! a ! j)"
    by (simp add: sum7 sum4)
  also have "(\<Sum>a<4. ?K ! i ! a * ?P ! a ! j)
      = (\<Sum>a<4. (\<Sum>b<4. ?P ! i ! b * inverse_m (innovation_cov f) ! b ! a) * ?P ! a ! j)"
    using assms by (intro sum.cong) (simp_all add: kalman_gain_nth)
  finally show ?thesis .
qed


section \<open>Symmetry through the two steps\<close>

lemma symmetric_identity: "symmetric n (identity n)"
  by (auto simp: symmetric_iff identity_nth)

lemma symmetric_adjugate4x4:
  assumes "mat 4 4 S" "symmetric 4 S"
  shows "symmetric 4 (adjugate4x4 S)"
proof -
  obtain a00 a01 a02 a03 a10 a11 a12 a13 a20 a21 a22 a23 a30 a31 a32 a33 where
    S: "S = [[a00, a01, a02, a03], [a10, a11, a12, a13], [a20, a21, a22, a23], [a30, a31, a32, a33]]"
    using assms(1) by (rule mat44_explicit)
  have sy: "S ! i ! j = S ! j ! i" if "i < 4" "j < 4" for i j
    using assms(2) that by (simp add: symmetric_iff)
  have e: "a10 = a01" "a20 = a02" "a30 = a03" "a21 = a12" "a31 = a13" "a32 = a23"
    using sy[of 1 0] sy[of 2 0] sy[of 3 0] sy[of 2 1] sy[of 3 1] sy[of 3 2]
    unfolding S by simp_all
  show ?thesis
    unfolding S e
    apply (simp add: symmetric_def upt4 adjugate4x4_def getMinor_def determinant3x3_def)
    apply (intro conjI)
         apply (simp_all add: algebra_simps)
    done
qed

lemma symmetric_inverse_m:
  assumes "mat 4 4 S" "symmetric 4 S"
  shows "symmetric 4 (inverse_m S)"
proof (cases "\<bar>determinant4x4 S\<bar> < 1 / 10 ^ 10")
  case True
  then show ?thesis
    using assms(1) by (simp add: inverse_m_def Let_def mat_length symmetric_identity)
next
  case False
  have "adjugate4x4 S ! i ! j = adjugate4x4 S ! j ! i" if "i < 4" "j < 4" for i j
    using symmetric_adjugate4x4[OF assms] that by (simp add: symmetric_iff)
  then show ?thesis
    unfolding inverse_m_regular[OF assms(1) False] symmetric_iff
    using mat_adjugate4x4[of S] by (simp add: mat_row mat_length)
qed

lemma symmetric_innovation_cov:
  assumes "mat 7 7 (ekf_P f)" "symmetric 7 (ekf_P f)"
  shows "symmetric 4 (innovation_cov f)"
  using assms(2) by (auto simp: symmetric_iff innovation_cov_nth[OF assms(1)])

lemma symmetric_predict:
  assumes "mat 7 7 (ekf_P f)" "symmetric 7 (ekf_P f)" "symmetric 7 (ekf_Q f)"
  shows "symmetric 7 (ekf_P (predict f))"
  unfolding symmetric_iff
proof (intro allI impI)
  fix i j :: nat assume i: "i < 7" and j: "j < 7"
  let ?F = "computeJacobian f" and ?P = "ekf_P f"
  have P: "?P ! l ! k = ?P ! k ! l" if "l < 7" "k < 7" for l k
    using assms(2) that by (simp add: symmetric_iff)
  have eq: "?F ! i ! l * ?P ! l ! k * ?F ! j ! k = ?F ! j ! k * ?P ! k ! l * ?F ! i ! l"
    if "k < 7" "l < 7" for k l
    using P[OF that(2) that(1)] by simp
  have "(\<Sum>k<7. (\<Sum>l<7. ?F ! i ! l * ?P ! l ! k) * ?F ! j ! k)
      = (\<Sum>k<7. \<Sum>l<7. ?F ! i ! l * ?P ! l ! k * ?F ! j ! k)"
    by (simp add: sum_distrib_right)
  also have "\<dots> = (\<Sum>k<7. \<Sum>l<7. ?F ! j ! k * ?P ! k ! l * ?F ! i ! l)"
    by (intro sum.cong refl) (rule eq; simp)
  also have "\<dots> = (\<Sum>l<7. \<Sum>k<7. ?F ! j ! k * ?P ! k ! l * ?F ! i ! l)"
    by (rule sum.swap)
  also have "\<dots> = (\<Sum>l<7. (\<Sum>k<7. ?F ! j ! k * ?P ! k ! l) * ?F ! i ! l)"
    by (simp add: sum_distrib_right)
  finally show "ekf_P (predict f) ! i ! j = ekf_P (predict f) ! j ! i"
    using assms(3) i j by (simp add: predict_P_nth[OF assms(1)] symmetric_iff)
qed

lemma symmetric_update:
  assumes "mat 7 7 (ekf_P f)" "symmetric 7 (ekf_P f)"
  shows "symmetric 7 (ekf_P (update f op ov))"
  unfolding symmetric_iff
proof (intro allI impI)
  fix i j :: nat assume i: "i < 7" and j: "j < 7"
  let ?P = "ekf_P f" and ?W = "inverse_m (innovation_cov f)"
  have P: "?P ! l ! k = ?P ! k ! l" if "l < 7" "k < 7" for l k
    using assms(2) that by (simp add: symmetric_iff)
  have "symmetric 4 ?W"
    using assms by (intro symmetric_inverse_m mat_innovation_cov symmetric_innovation_cov)
  then have W: "?W ! a ! b = ?W ! b ! a" if "a < 4" "b < 4" for a b
    using that by (simp add: symmetric_iff)
  have eq: "?P ! i ! b * ?W ! b ! a * ?P ! a ! j = ?P ! j ! a * ?W ! a ! b * ?P ! b ! i"
    if "a < 4" "b < 4" for a b
    using P[of i b] P[of a j] W[OF that] i j that by simp
  have "(\<Sum>a<4. (\<Sum>b<4. ?P ! i ! b * ?W ! b ! a) * ?P ! a ! j)
      = (\<Sum>a<4. \<Sum>b<4. ?P ! i ! b * ?W ! b ! a * ?P ! a ! j)"
    by (simp add: sum_distrib_right)
  also have "\<dots> = (\<Sum>a<4. \<Sum>b<4. ?P ! j ! a * ?W ! a ! b * ?P ! b ! i)"
    by (intro sum.cong refl) (rule eq; simp)
  also have "\<dots> = (\<Sum>b<4. \<Sum>a<4. ?P ! j ! a * ?W ! a ! b * ?P ! b ! i)"
    by (rule sum.swap)
  also have "\<dots> = (\<Sum>b<4. (\<Sum>a<4. ?P ! j ! a * ?W ! a ! b) * ?P ! b ! i)"
    by (simp add: sum_distrib_right)
  finally show "ekf_P (update f op ov) ! i ! j = ekf_P (update f op ov) ! j ! i"
    using i j by (simp add: update_P_nth[OF assms(1)] P[of i j])
qed

lemma symmetric_initial_Q: "symmetric 7 initial_Q"
  by (simp add: symmetric_def initial_Q_def upt7)


section \<open>Quadratic forms, pivots and the determinant\<close>
















section \<open>Positive semi-definiteness through the two steps\<close>













section \<open>Clamping of the believed constants\<close>

text \<open>
  C1.  After every call of \<open>update\<close>, whatever the observation, the prior state vector and
  the covariance are, the believed constants lie in their ranges:
  gravity in [0, 20], mass in [0.1, 10], friction in [0, 2].
\<close>

theorem C1_update_clamps:
  "0 \<le> sv_g (ekf_state (update f op ov)) \<and> sv_g (ekf_state (update f op ov)) \<le> 20 \<and>
   1/10 \<le> sv_m (ekf_state (update f op ov)) \<and> sv_m (ekf_state (update f op ov)) \<le> 10 \<and>
   0 \<le> sv_mu (ekf_state (update f op ov)) \<and> sv_mu (ekf_state (update f op ov)) \<le> 2"
  by (simp add: update_def Let_def)


section \<open>Non-negative variances\<close>




section \<open>Repeated prediction\<close>

text \<open>
  C3 as stated fails.  A filter built by the constructor with its defaults, at rest
  and believing in friction 0.1, loses covariance trace in its first \<open>predict\<close> and
  again in its second: the factor \<open>1 - \<mu> dt\<close> on the velocity rows of the Jacobian
  contracts the velocity variances by more than the process noise adds.
\<close>

theorem C3_trace_counterexample:
  "trace7 (ekf_P (predict (new_ekf
       \<lparr> sv_px = 0, sv_py = 0, sv_vx = 0, sv_vy = 0, sv_g = 98/10, sv_m = 1, sv_mu = 1/10 \<rparr>
       10 (16/1000))))
   < trace7 (ekf_P (new_ekf
       \<lparr> sv_px = 0, sv_py = 0, sv_vx = 0, sv_vy = 0, sv_g = 98/10, sv_m = 1, sv_mu = 1/10 \<rparr>
       10 (16/1000)))
   \<and>
   trace7 (ekf_P (predict (predict (new_ekf
       \<lparr> sv_px = 0, sv_py = 0, sv_vx = 0, sv_vy = 0, sv_g = 98/10, sv_m = 1, sv_mu = 1/10 \<rparr>
       10 (16/1000)))))
   < trace7 (ekf_P (predict (new_ekf
       \<lparr> sv_px = 0, sv_py = 0, sv_vx = 0, sv_vy = 0, sv_g = 98/10, sv_m = 1, sv_mu = 1/10 \<rparr>
       10 (16/1000))))"
  by (simp add: trace7_def predict_def new_ekf_def initial_P_def initial_Q_def
      computeJacobian_def matrixMultiply_def matrixAdd_def transpose_m_def upt7 Let_def)

text \<open>
  C3, amended.  What every \<open>predict\<close> does accumulate is the process noise of the three
  constants: the diagonal entries of gravity, mass and friction (indices 4, 5, 6) each
  grow by exactly \<open>1e-4\<close>, for every state vector and every 7x7 covariance, and the
  filter keeps its shape, so this holds along any run of consecutive predicts.
\<close>

theorem C3_constants_variance_grows:
  assumes "ekf_shape f"
  shows "ekf_P (predict f) ! 4 ! 4 = ekf_P f ! 4 ! 4 + 1/10000 \<and>
         ekf_P (predict f) ! 5 ! 5 = ekf_P f ! 5 ! 5 + 1/10000 \<and>
         ekf_P (predict f) ! 6 ! 6 = ekf_P f ! 6 ! 6 + 1/10000 \<and>
         ekf_shape (predict f)"
proof -
  from assms have P: "mat 7 7 (ekf_P f)" and Q: "ekf_Q f = initial_Q"
    by (simp_all add: ekf_shape_def)
  have "ekf_P (predict f) ! 4 ! 4 = ekf_P f ! 4 ! 4 + 1/10000"
    by (simp add: predict_P_nth[OF P] Q sum7 computeJacobian_def initial_Q_def Let_def)
  moreover have "ekf_P (predict f) ! 5 ! 5 = ekf_P f ! 5 ! 5 + 1/10000"
    by (simp add: predict_P_nth[OF P] Q sum7 computeJacobian_def initial_Q_def Let_def)
  moreover have "ekf_P (predict f) ! 6 ! 6 = ekf_P f ! 6 ! 6 + 1/10000"
    by (simp add: predict_P_nth[OF P] Q sum7 computeJacobian_def initial_Q_def Let_def)
  ultimately show ?thesis
    using ekf_shape_predict[OF assms] by simp
qed

theorem C3_constants_variance_grows_witness:
  "ekf_shape (new_ekf
       \<lparr> sv_px = 0, sv_py = 0, sv_vx = 0, sv_vy = 0, sv_g = 98/10, sv_m = 1, sv_mu = 1/10 \<rparr>
       10 (16/1000)) \<and>
   ekf_P (predict (new_ekf
       \<lparr> sv_px = 0, sv_py = 0, sv_vx = 0, sv_vy = 0, sv_g = 98/10, sv_m = 1, sv_mu = 1/10 \<rparr>
       10 (16/1000))) ! 4 ! 4 = 50001/10000"
proof -
  have s: "ekf_shape (new_ekf
       \<lparr> sv_px = 0, sv_py = 0, sv_vx = 0, sv_vy = 0, sv_g = 98/10, sv_m = 1, sv_mu = 1/10 \<rparr>
       10 (16/1000))"
    by (rule ekf_shape_new_ekf)
  from C3_constants_variance_grows[OF s] s show ?thesis
    by (simp add: new_ekf_def initial_P_def)
qed


section \<open>Symmetry of the covariance\<close>

text \<open>
  C4.  If the covariance is symmetric before a call, it is symmetric after \<open>predict\<close>
  and after \<open>update\<close>, in exact arithmetic.  The proof of the \<open>update\<close> half goes
  through the symmetry of the matrix returned by the inverse routine, which holds in
  both of its branches: the identity is symmetric, and so is the adjugate of a
  symmetric matrix divided by its determinant.
\<close>

theorem C4_symmetry_preserved:
  assumes "ekf_shape f" "symmetric 7 (ekf_P f)"
  shows "symmetric 7 (ekf_P (predict f)) \<and> symmetric 7 (ekf_P (update f op ov))"
  using assms symmetric_predict[of f] symmetric_update[of f op ov]
  by (simp add: ekf_shape_def symmetric_initial_Q)


theorem C4_symmetry_preserved_witness:
  "ekf_shape (new_ekf
       \<lparr> sv_px = 0, sv_py = 0, sv_vx = 0, sv_vy = 0, sv_g = 98/10, sv_m = 1, sv_mu = 1/10 \<rparr>
       10 (16/1000)) \<and>
   symmetric 7 (ekf_P (new_ekf
       \<lparr> sv_px = 0, sv_py = 0, sv_vx = 0, sv_vy = 0, sv_g = 98/10, sv_m = 1, sv_mu = 1/10 \<rparr>
       10 (16/1000))) \<and>
   symmetric 7 (ekf_P (predict (new_ekf
       \<lparr> sv_px = 0, sv_py = 0, sv_vx = 0, sv_vy = 0, sv_g = 98/10, sv_m = 1, sv_mu = 1/10 \<rparr>
       10 (16/1000)))) \<and>
   symmetric 7 (ekf_P (update (new_ekf
       \<lparr> sv_px = 0, sv_py = 0, sv_vx = 0, sv_vy = 0, sv_g = 98/10, sv_m = 1, sv_mu = 1/10 \<rparr>
       10 (16/1000)) \<lparr> v2x = 1, v2y = 2 \<rparr> \<lparr> v2x = 3, v2y = 4 \<rparr>))"
proof -
  have s: "ekf_shape (new_ekf
       \<lparr> sv_px = 0, sv_py = 0, sv_vx = 0, sv_vy = 0, sv_g = 98/10, sv_m = 1, sv_mu = 1/10 \<rparr>
       10 (16/1000))"
    by (rule ekf_shape_new_ekf)
  have y: "symmetric 7 (ekf_P (new_ekf
       \<lparr> sv_px = 0, sv_py = 0, sv_vx = 0, sv_vy = 0, sv_g = 98/10, sv_m = 1, sv_mu = 1/10 \<rparr>
       10 (16/1000)))"
    by (simp add: new_ekf_def initial_P_def symmetric_def upt7)
  from C4_symmetry_preserved[OF s y] s y show ?thesis
    by blast
qed


section \<open>The guarded inverse\<close>




section \<open>The aggregator's first belief\<close>






section \<open>Independence of returned values\<close>

lemma reach_fresh:
  assumes "reach h v a" "closed_from n h" "\<And>r. v = Ref r \<Longrightarrow> n \<le> r"
  shows "n \<le> a"
  using assms
proof (induction rule: reach.induct)
  case (reach_root a)
  then show ?case by simp
next
  case (reach_step a b)
  then have "n \<le> a" by simp
  with reach_step show ?case
    unfolding closed_from_def using reach.simps by blast
qed

lemma closed_from_append:
  assumes "\<And>ob b. ob \<in> set new \<Longrightarrow> Ref b \<in> set (members ob) \<Longrightarrow> length h \<le> b"
  shows "closed_from (length h) (h @ new)"
  unfolding closed_from_def
proof (intro allI impI)
  fix a b assume "length h \<le> a \<and> a < length (h @ new) \<and> Ref b \<in> set (members ((h @ new) ! a))"
  then have a: "length h \<le> a" "a - length h < length new"
    and r: "Ref b \<in> set (members (new ! (a - length h)))"
    by (auto simp: nth_append)
  from a(2) have "new ! (a - length h) \<in> set new" by simp
  from assms[OF this r] show "length h \<le> b" .
qed

lemma detachedI:
  assumes "h' = h @ new" "closed_from (length h) h'" "\<And>r. v = Ref r \<Longrightarrow> length h \<le> r"
  shows "detached h h' v"
  unfolding detached_def
proof (intro conjI allI impI)
  show "take (length h) h' = h" using assms(1) by simp
  fix a ob assume "reach h' v a"
  then have "length h \<le> a"
    using assms(2,3) by (rule reach_fresh)
  then show "take (length h) (h'[a := ob]) = h"
    using assms(1) by (simp add: take_update_cancel)
qed

lemma flat_no_ref: "flat ob \<Longrightarrow> Ref b \<notin> set (members ob)"
  by (auto simp: flat_def list_all_iff)

lemma detached_spread:
  assumes "flat (Obj fs)"
  shows "detached h (fst (alloc h (Obj fs))) (snd (alloc h (Obj fs)))"
proof (rule detachedI[where new = "[Obj fs]"])
  show "fst (alloc h (Obj fs)) = h @ [Obj fs]" by (simp add: alloc_def)
  show "closed_from (length h) (fst (alloc h (Obj fs)))"
    unfolding alloc_def fst_conv
    by (rule closed_from_append) (use flat_no_ref[OF assms] in auto)
  show "\<And>r. snd (alloc h (Obj fs)) = Ref r \<Longrightarrow> length h \<le> r"
    by (simp add: alloc_def)
qed

lemma write_matrix_eq:
  "write_matrix h m =
     (h @ (map (\<lambda>r. Arr (map Num r)) m @ [Arr (map Ref [length h..<length h + length m])]),
      Ref (length h + length m))"
  by (simp add: write_matrix_def alloc_def Let_def)

lemma members_num_row: "Ref b \<notin> set (members (Arr (map Num r)))"
  by auto

lemma detached_covariance:
  "detached h (fst (alloc (fst (write_matrix h m)) (Obj [(''data'', snd (write_matrix h m))])))
               (snd (alloc (fst (write_matrix h m)) (Obj [(''data'', snd (write_matrix h m))])))"
proof (rule detachedI[where new = "map (\<lambda>r. Arr (map Num r)) m
        @ [Arr (map Ref [length h..<length h + length m]), Obj [(''data'', Ref (length h + length m))]]"])
  let ?new = "map (\<lambda>r. Arr (map Num r)) m
        @ [Arr (map Ref [length h..<length h + length m]), Obj [(''data'', Ref (length h + length m))]]"
  show e: "fst (alloc (fst (write_matrix h m)) (Obj [(''data'', snd (write_matrix h m))])) = h @ ?new"
    by (simp add: write_matrix_eq alloc_def)
  show "closed_from (length h) (fst (alloc (fst (write_matrix h m)) (Obj [(''data'', snd (write_matrix h m))])))"
    unfolding e by (rule closed_from_append) auto
  show "\<And>r. snd (alloc (fst (write_matrix h m)) (Obj [(''data'', snd (write_matrix h m))])) = Ref r
        \<Longrightarrow> length h \<le> r"
    by (simp add: write_matrix_eq alloc_def)
qed

lemma write_global_eq:
  "write_global h g =
     (h @ [Arr (map Num (po_samples (gp_gravity g))),
           Obj [(''mean'', Num (po_mean (gp_gravity g))), (''variance'', Num (po_variance (gp_gravity g))),
                (''samples'', Ref (length h)), (''entropy'', Num (po_entropy (gp_gravity g)))],
           Arr (map Num (po_samples (gp_mass g))),
           Obj [(''mean'', Num (po_mean (gp_mass g))), (''variance'', Num (po_variance (gp_mass g))),
                (''samples'', Ref (length h + 2)), (''entropy'', Num (po_entropy (gp_mass g)))],
           Arr (map Num (po_samples (gp_friction g))),
           Obj [(''mean'', Num (po_mean (gp_friction g))), (''variance'', Num (po_variance (gp_friction g))),
                (''samples'', Ref (length h + 4)), (''entropy'', Num (po_entropy (gp_friction g)))],
           Obj [(''gravity'', Ref (length h + 1)), (''mass'', Ref (length h + 3)),
                (''friction'', Ref (length h + 5)),
                (''consensusStrength'', Num (gp_consensusStrength g)),
                (''informationGain'', Num (gp_informationGain g))]],
      Ref (length h + 6))"
  by (simp add: write_global_def write_posterior_def write_nums_def alloc_def Let_def)

lemma detached_global: "detached h (fst (write_global h g)) (snd (write_global h g))"
  unfolding write_global_eq fst_conv snd_conv
  by (rule detachedI[OF refl]) (rule closed_from_append, auto)

lemma read_all_Some_iff:
  "read_all rd xs = Some ys \<longleftrightarrow>
     length xs = length ys \<and> (\<forall>i<length xs. rd (xs ! i) = Some (ys ! i))"
proof (induction xs arbitrary: ys)
  case Nil
  then show ?case by auto
next
  case (Cons x xs)
  show ?case
  proof (cases ys)
    case Nil
    then show ?thesis by (auto split: option.splits)
  next
    case (Cons y ys')
    then show ?thesis
      using Cons.IH[of ys']
      by (auto simp: nth_Cons split: option.splits nat.splits)
  qed
qed

lemma read_all_nums: "read_all read_num (map Num xs) = Some xs"
  by (simp add: read_all_Some_iff)

lemma read_nums_alloc: "read_nums (h @ [Arr (map Num xs)] @ rest) (Ref (length h)) = Some xs"
  by (simp add: read_nums_def nth_append read_all_nums)

lemma read_matrix_write_matrix:
  "read_matrix (fst (write_matrix h m) @ rest) (snd (write_matrix h m)) = Some m"
proof -
  let ?rows = "map (\<lambda>r. Arr (map Num r)) m"
  let ?refs = "map Ref [length h..<length h + length m]"
  let ?h' = "(h @ (?rows @ [Arr ?refs])) @ rest"
  have row: "read_nums ?h' (Ref (length h + k)) = Some (m ! k)" if "k < length m" for k
    using that by (simp add: read_nums_def nth_append read_all_nums)
  have "read_all (read_nums ?h') ?refs = Some m"
    unfolding read_all_Some_iff using row by simp
  then show ?thesis
    by (simp add: write_matrix_eq read_matrix_def nth_append)
qed

lemma read_global_write_global:
  "read_global (fst (write_global h g)) (snd (write_global h g)) = Some g"
  by (simp add: write_global_eq read_global_def read_posterior_def get_field_def read_nums_def
      nth_append read_all_nums)

text \<open>
  C7 as stated fails for the particle list.  \<open>getParticles\<close> returns a new array,
  but its elements are the references held in the system's map: the position object
  of the live particle is reachable from the returned value, and overwriting it
  changes the core's store.
\<close>

theorem C7_getParticles_counterexample:
  "getParticles_h example_core (Ref 13) = Some (example_core @ [Arr [Ref 15]], Ref 18) \<and>
   reach (example_core @ [Arr [Ref 15]]) (Ref 18) 16 \<and>
   take (length example_core)
     ((example_core @ [Arr [Ref 15]])[16 := Obj [(''x'', Num 99), (''y'', Num 0), (''z'', Num 0)]])
     \<noteq> example_core \<and>
   \<not> detached example_core (example_core @ [Arr [Ref 15]]) (Ref 18)"
proof -
  let ?h' = "example_core @ [Arr [Ref 15]]"
  have g: "getParticles_h example_core (Ref 13) = Some (?h', Ref 18)"
    by (simp add: getParticles_h_def get_field_def example_core_def alloc_def)
  have "reach ?h' (Ref 18) 18"
    by (rule reach_root) (simp_all add: example_core_def)
  then have "reach ?h' (Ref 18) 15"
    by (rule reach_step) (simp_all add: example_core_def)
  then have r: "reach ?h' (Ref 18) 16"
    by (rule reach_step) (simp_all add: example_core_def)
  have m: "take (length example_core)
     (?h'[16 := Obj [(''x'', Num 99), (''y'', Num 0), (''z'', Num 0)]]) \<noteq> example_core"
    by (simp add: example_core_def)
  from r m have "\<not> detached example_core ?h' (Ref 18)"
    unfolding detached_def by blast
  with g r m show ?thesis by blast
qed

text \<open>
  C7, amended.  In a store that holds an estimator, an aggregator and a particle
  system of the declared types, \<open>getState\<close>, \<open>getCovariance\<close> and \<open>getGlobalPosterior\<close>
  return; the value each returns is detached from the store before the call, and it
  carries the same data (the fields of the state vector, the matrix, the posterior).
  \<open>getParticles\<close> returns a newly allocated array whose elements are the references
  stored in the map, that is, the live particles.
\<close>

theorem C7_copying_getters_detached:
  assumes "get_field h ekf ''state'' = Some (Ref s)" "s < length h" "h ! s = Obj fs" "flat (Obj fs)"
    and "get_field h ekf ''P'' = Some p" "read_matrix h p = Some m"
    and "get_field h agg ''globalPosterior'' = Some g" "read_global h g = Some gp"
    and "get_field h sys ''particles'' = Some (Ref mp)" "mp < length h" "h ! mp = Obj entries"
  shows "(case getState_h h ekf of
            None \<Rightarrow> False
          | Some r \<Rightarrow> detached h (fst r) (snd r) \<and> snd r = Ref (length h)
                      \<and> fst r ! length h = Obj fs) \<and>
         (case getCovariance_h h ekf of
            None \<Rightarrow> False
          | Some r \<Rightarrow> detached h (fst r) (snd r) \<and>
                      (case get_field (fst r) (snd r) ''data'' of
                         None \<Rightarrow> False
                       | Some d \<Rightarrow> read_matrix (fst r) d = Some m)) \<and>
         (case getGlobalPosterior_h h agg of
            None \<Rightarrow> False
          | Some r \<Rightarrow> detached h (fst r) (snd r) \<and> read_global (fst r) (snd r) = Some gp) \<and>
         getParticles_h h sys = Some (h @ [Arr (map snd entries)], Ref (length h))"
proof -
  have a: "getState_h h ekf = Some (alloc h (Obj fs))"
    using assms(1-3) by (simp add: getState_h_def)
  have b: "getCovariance_h h ekf
      = Some (alloc (fst (write_matrix h m)) (Obj [(''data'', snd (write_matrix h m))]))"
    using assms(5,6) by (simp add: getCovariance_h_def Let_def)
  have b': "get_field (fst (alloc (fst (write_matrix h m)) (Obj [(''data'', snd (write_matrix h m))])))
              (snd (alloc (fst (write_matrix h m)) (Obj [(''data'', snd (write_matrix h m))]))) ''data''
            = Some (snd (write_matrix h m))"
    by (simp add: alloc_def get_field_def)
  have b'': "read_matrix (fst (alloc (fst (write_matrix h m)) (Obj [(''data'', snd (write_matrix h m))])))
              (snd (write_matrix h m)) = Some m"
    unfolding alloc_def fst_conv by (rule read_matrix_write_matrix)
  have c: "getGlobalPosterior_h h agg = Some (write_global h gp)"
    using assms(7,8) by (simp add: getGlobalPosterior_h_def)
  have d: "getParticles_h h sys = Some (h @ [Arr (map snd entries)], Ref (length h))"
    using assms(9-11) by (simp add: getParticles_h_def alloc_def)
  show ?thesis
    unfolding a b c d option.case
    using detached_spread[OF assms(4), of h] detached_covariance[of h m] detached_global[of h gp]
      read_global_write_global[of h gp] b''
    by (simp add: b') (simp add: alloc_def)
qed

theorem C7_copying_getters_detached_witness:
  "(case getState_h example_core (Ref 0) of
      None \<Rightarrow> False
    | Some r \<Rightarrow> detached example_core (fst r) (snd r) \<and> snd r = Ref 18) \<and>
   (case getCovariance_h example_core (Ref 0) of
      None \<Rightarrow> False
    | Some r \<Rightarrow> detached example_core (fst r) (snd r)) \<and>
   (case getGlobalPosterior_h example_core (Ref 5) of
      None \<Rightarrow> False
    | Some r \<Rightarrow> detached example_core (fst r) (snd r)) \<and>
   getParticles_h example_core (Ref 13) = Some (example_core @ [Arr [Ref 15]], Ref 18)"
proof -
  have h1: "get_field example_core (Ref 0) ''state'' = Some (Ref 1)"
    by (simp add: get_field_def example_core_def)
  have h2: "1 < length example_core"
    by (simp add: example_core_def)
  have h3: "example_core ! 1 = Obj [(''px'', Num 0), (''py'', Num 0), (''vx'', Num 1), (''vy'', Num 0),
           (''g'', Num 10), (''m'', Num 1), (''mu'', Num 0)]"
    by (simp add: example_core_def)
  have h4: "flat (Obj [(''px'', Num 0), (''py'', Num 0), (''vx'', Num 1), (''vy'', Num 0),
           (''g'', Num 10), (''m'', Num 1), (''mu'', Num 0)])"
    by (simp add: flat_def)
  have h5: "get_field example_core (Ref 0) ''P'' = Some (Ref 2)"
    by (simp add: get_field_def example_core_def)
  have h6: "read_matrix example_core (Ref 2) = Some [[10, 0], [0, 5]]"
    by (simp add: read_matrix_def read_nums_def example_core_def)
  have h7: "get_field example_core (Ref 5) ''globalPosterior'' = Some (Ref 6)"
    by (simp add: get_field_def example_core_def)
  have h8: "read_global example_core (Ref 6) =
      Some \<lparr> gp_gravity = \<lparr> po_mean = 10, po_variance = 25, po_samples = [9, 11], po_entropy = 3 \<rparr>,
             gp_mass = \<lparr> po_mean = 1, po_variance = 4, po_samples = [], po_entropy = 2 \<rparr>,
             gp_friction = \<lparr> po_mean = 0, po_variance = 1, po_samples = [], po_entropy = 1 \<rparr>,
             gp_consensusStrength = 0, gp_informationGain = 0 \<rparr>"
    by (simp add: read_global_def read_posterior_def read_nums_def get_field_def example_core_def)
  have h9: "get_field example_core (Ref 13) ''particles'' = Some (Ref 14)"
    by (simp add: get_field_def example_core_def)
  have h10: "14 < length example_core"
    by (simp add: example_core_def)
  have h11: "example_core ! 14 = Obj [(''p1'', Ref 15)]"
    by (simp add: example_core_def)
  have l: "length example_core = 18"
    by (simp add: example_core_def)
  show ?thesis
    using C7_copying_getters_detached[OF h1 h2 h3 h4 h5 h6 h7 h8 h9 h10 h11]
    by (auto simp: l split: option.splits)
qed



section \<open>A head-on collision and the tick\<close>















subsection \<open>The estimator's correction after the collision\<close>


















section \<open>Equation discovery: insufficient data\<close>

text \<open>
  C9.  The gravity and velocity fits return \<open>null\<close> exactly when the buffer holds fewer
  than 10 samples, the position fit exactly when it holds fewer than 20; otherwise
  each returns an equation.  The model has no failure branch: the functions are total
  and every array read is within the buffer.
\<close>

theorem C9_discovery_null_iff:
  "(discoverGravityEquation observations = None) = (length observations < 10) \<and>
   (discoverVelocityEquation observations = None) = (length observations < 10) \<and>
   (discoverPositionEquation observations = None) = (length observations < 20)"
  by (simp add: discoverGravityEquation_def discoverVelocityEquation_def
        discoverPositionEquation_def Let_def)


section \<open>Momentum under collision resolution\<close>








end
